theory Spec2Isabelle
  imports Complex_Main
begin

section \<open>Data model\<close>

text \<open>
  The engine is the class \<open>Game\<close>. Its private fields become the fields of the record
  \<open>Game\<close>, its methods become functions that take the engine state and return the new
  one. The numbers that the user hands to the engine for its dimensions, its scale and
  the threshold of \<open>outbound\<close> are values of the type \<open>number\<close> below, which has \<open>NaN\<close> and
  the two infinities. The geometry of entities and the timestamps of the host are
  finite and modelled as \<open>real\<close>, with exact arithmetic; counters that only ever hold
  whole numbers are \<open>int\<close> or \<open>nat\<close>. The drawing surface
  (canvas context) is an external collaborator: calls that only draw or clear pixels
  leave the engine state as it is and are not part of the model.
\<close>

datatype GameState =
    GameState_unset
  | GameState_preload
  | GameState_load
  | GameState_update
  | GameState_error

text \<open>
  Every \<open>throw\<close> and every promise rejection of the source is one of these values.
  The source throws plain \<open>Error\<close> objects and rejects with strings; the constructors
  are named after the taxonomy of the specification.
\<close>

datatype error =
    ConstructionError
  | EmptyAssetListError
  | AssetLoadError string
  | ProducerError string
  | InvalidModeError
  | KeyboardNotInitializedError
  | TypeError
  | IncorrectLoggingTypeError

text \<open>
  A field that may hold a number or be absent: \<open>typeof v === "number"\<close> is the test for
  the constructor \<open>JSNumber\<close>.
\<close>

datatype jsval = JSNumber real | JSUndefined

text \<open>
  A JavaScript number: not a number, an infinity or a finite value. Comparisons with
  \<open>NaN\<close> are false; \<open>a <= b\<close> is true when neither is \<open>NaN\<close> and \<open>b < a\<close> is false. The
  arithmetic is that of the language on these values, without rounding.
\<close>

datatype number = NaN | NegInfinity | Finite real | PosInfinity

fun Math_abs :: "number \<Rightarrow> number" where
  "Math_abs NaN = NaN"
| "Math_abs NegInfinity = PosInfinity"
| "Math_abs (Finite r) = Finite \<bar>r\<bar>"
| "Math_abs PosInfinity = PosInfinity"

fun number_less :: "number \<Rightarrow> number \<Rightarrow> bool" where
  "number_less NaN b = False"
| "number_less a NaN = False"
| "number_less (Finite a) (Finite b) = (a < b)"
| "number_less a NegInfinity = False"
| "number_less NegInfinity b = True"
| "number_less PosInfinity b = False"
| "number_less (Finite a) PosInfinity = True"

definition number_le :: "number \<Rightarrow> number \<Rightarrow> bool" where
  "number_le a b = (a \<noteq> NaN \<and> b \<noteq> NaN \<and> \<not> number_less b a)"

fun number_add :: "number \<Rightarrow> number \<Rightarrow> number" where
  "number_add NaN b = NaN"
| "number_add a NaN = NaN"
| "number_add (Finite a) (Finite b) = Finite (a + b)"
| "number_add PosInfinity NegInfinity = NaN"
| "number_add NegInfinity PosInfinity = NaN"
| "number_add PosInfinity b = PosInfinity"
| "number_add a PosInfinity = PosInfinity"
| "number_add NegInfinity b = NegInfinity"
| "number_add a NegInfinity = NegInfinity"

text \<open>The sign of a number that is not \<open>NaN\<close>, and the product of two numbers.\<close>

fun number_sign :: "number \<Rightarrow> real" where
  "number_sign NaN = 0"
| "number_sign NegInfinity = - 1"
| "number_sign (Finite r) = sgn r"
| "number_sign PosInfinity = 1"

fun number_mult :: "number \<Rightarrow> number \<Rightarrow> number" where
  "number_mult NaN b = NaN"
| "number_mult a NaN = NaN"
| "number_mult (Finite a) (Finite b) = Finite (a * b)"
| "number_mult a b =
     (if number_sign a * number_sign b = 0 then NaN
      else if number_sign a * number_sign b < 0 then NegInfinity
      else PosInfinity)"

text \<open>
  The media element behind an asset is modelled by the one signal it will fire: its
  ready signal (\<open>onload\<close>, \<open>canplaythrough\<close>), its error signal, or none at all.
\<close>

datatype load_signal = Loads | Fails | Stalls

text \<open>The fields \<open>x\<close> and \<open>y\<close> of a vector are named \<open>vx\<close> and \<open>vy\<close>.\<close>

record Vector2 =
  vx :: real
  vy :: real

record Flip =
  flip_x :: bool
  flip_y :: bool

record GameSprite =
  spr_name :: string
  spr_src :: string
  spr_element :: load_signal
  spr_pos :: Vector2
  spr_size :: Vector2
  spr_rotate :: real
  spr_skew :: Vector2
  spr_flip :: Flip

record GameAudio =
  aud_name :: string
  aud_element :: load_signal

text \<open>The collision rectangle \<open>{x, y, w, h}\<close> of an entity; each field may be absent.\<close>

record Collision =
  col_x :: jsval
  col_y :: jsval
  col_w :: jsval
  col_h :: jsval

record GameObject =
  name :: string
  sprite :: GameSprite
  pos :: Vector2
  size_xy :: Vector2
  collision :: Collision
  layer :: int
  instanceId :: int

record GameMap =
  map_name :: string
  map_sprite :: GameSprite

record GameCamera =
  cam_name :: string
  cam_pos :: Vector2
  cam_size :: Vector2
  cam_map :: GameMap

text \<open>
  The values the engine tells apart with \<open>instanceof\<close>: what a stage producer returns
  and what \<open>removeObject\<close> receives.
\<close>

datatype js_instance =
    InstSprite GameSprite
  | InstAudio GameAudio
  | InstObject GameObject
  | InstMap GameMap
  | InstCamera GameCamera

text \<open>
  Modelled from the spec: the class \<open>GameKeyboard\<close> is imported by the engine but its
  source is not part of the sources at hand. The input source "exposes attach/detach":
  constructing it attaches its listeners, \<open>removeListener\<close> detaches them.
\<close>

record GameKeyboard =
  listenerAttached :: bool

definition GameKeyboard_new :: "GameKeyboard" where
  "GameKeyboard_new = \<lparr>listenerAttached = True\<rparr>"

definition removeListener :: "GameKeyboard \<Rightarrow> GameKeyboard" where
  "removeListener k = k\<lparr>listenerAttached := False\<rparr>"

datatype console_entry =
    Console_log string
  | Console_info string
  | Console_warn string
  | Console_error string

text \<open>
  A promise is modelled by how it settles. \<open>Pending\<close> is a promise that never settles
  (an asset whose signals never fire).
\<close>

datatype promise = Fulfilled | Rejected error | Pending

record Game =
  width :: number
  height :: number
  renderingType :: string
  smoothRenderingValue :: string
  scale :: number
  loadedSprites :: "string \<rightharpoonup> GameSprite"
  loadedGameObjects :: "string \<rightharpoonup> GameObject"
  loadedAudios :: "string \<rightharpoonup> GameAudio"
  loadedGameMaps :: "string \<rightharpoonup> GameMap"
  loadedGameCameras :: "string \<rightharpoonup> GameCamera"
  logsEnabled :: bool
  loggedErros :: "string set"
  loggedErrors :: "nat set"
  loggedExceptions :: "nat set"
  currentState :: GameState
  lifecyclePromise :: promise
  updaterRunOnceKeys :: "string set"
  deltaTimePreviousTime :: real
  updateIsRunning :: bool
  updateLoopLogic :: bool
  keyboardEnabled :: bool
  keyboardState :: "string \<rightharpoonup> bool"
  keyboardInstance :: "GameKeyboard option"
  console :: "console_entry list"

text \<open>
  \<open>updateLoopLogic\<close> records whether the loop closure has been created; the closure
  itself is the function \<open>updateLoopLogic_tick\<close> below. \<open>console\<close> collects what the
  engine writes to the console, oldest first. The canvas, its context and the context
  settings are left out with the drawing surface. The frame id \<open>#updateFrameId\<close> and the
  host's queue of scheduled frames are not modelled: a tick is an event of the
  environment, and the loop's own guard decides whether it does anything. The sets
  \<open>#loggedErrors\<close> and \<open>#loggedExceptions\<close> are handed to the logger by \<open>useLogs\<close>; the
  engine itself never writes to them.
\<close>

section \<open>Promises\<close>

text \<open>
  \<open>p.then(onFulfilled)\<close>: the reaction runs only when \<open>p\<close> is fulfilled, and the derived
  promise settles as the reaction does; a rejected \<open>p\<close> rejects the derived promise
  with the same reason and the reaction is not run. Each link is run to settlement
  when it is registered.
\<close>

definition promise_then :: "promise \<Rightarrow> (Game \<Rightarrow> promise \<times> Game) \<Rightarrow> Game \<Rightarrow> promise \<times> Game" where
  "promise_then p onFulfilled g =
     (case p of
        Fulfilled \<Rightarrow> onFulfilled g
      | Rejected err \<Rightarrow> (Rejected err, g)
      | Pending \<Rightarrow> (Pending, g))"

text \<open>
  \<open>p.catch(onRejected)\<close>: the reaction runs only when \<open>p\<close> itself is rejected. It is a
  reaction of \<open>p\<close>, not of the promises later derived from \<open>p\<close>.
\<close>

definition promise_catch :: "promise \<Rightarrow> (error \<Rightarrow> Game \<Rightarrow> Game) \<Rightarrow> Game \<Rightarrow> Game" where
  "promise_catch p onRejected g =
     (case p of
        Fulfilled \<Rightarrow> g
      | Rejected err \<Rightarrow> onRejected err g
      | Pending \<Rightarrow> g)"

section \<open>Constructor, getters and setters\<close>

definition lifecycle_catch :: "error \<Rightarrow> Game \<Rightarrow> Game" where
  "lifecycle_catch err g =
     g\<lparr>currentState := GameState_error,
       console := console g @ [Console_error ''An error occurred during the game object creation: '']\<rparr>"

text \<open>
  The logger, from \<open>GameLogger.ts\<close>. The getter \<open>callerInfo\<close> reads the stack of a new
  \<open>Error\<close> and collects the places \<open>file.js:line:column\<close> in it. The stack belongs to the
  host, so the getter takes what \<open>error.stack.match(pattern)\<close> yields: \<open>None\<close> when there
  is no stack or nothing in it matches, the list of matches otherwise. The places of
  the logger's own file are filtered out, and the rest is joined, last place first,
  by \<open>reduce\<close> without a start value, which throws a \<open>TypeError\<close> on the empty list.
\<close>

definition newline :: string where
  "newline = [CHR 0x0A]"

definition GameLogger_callerInfo :: "string list option \<Rightarrow> error + string option" where
  "GameLogger_callerInfo stackMatch =
     (case stackMatch of
        None \<Rightarrow> Inr None
      | Some matched \<Rightarrow>
          (case filter (\<lambda>path. take (length ''GameLogger'') path \<noteq> ''GameLogger'') matched of
             [] \<Rightarrow> Inl TypeError
           | first # others \<Rightarrow>
               Inr (Some (newline @ newline @
                          foldl (\<lambda>prev next. next @ newline @ prev) first others))))"

text \<open>
  \<open>GameLogger.out(type, message)\<close> writes the message, a blank and the caller
  information (the text \<open>undefined\<close> when there is none) at the level \<open>type\<close>.
\<close>

definition GameLogger_out :: "string \<Rightarrow> string \<Rightarrow> string list option \<Rightarrow> error + console_entry" where
  "GameLogger_out logType message stackMatch =
     (case GameLogger_callerInfo stackMatch of
        Inl err \<Rightarrow> Inl err
      | Inr info \<Rightarrow>
          let finalMessage = message @ '' '' @ (case info of None \<Rightarrow> ''undefined'' | Some text \<Rightarrow> text)
          in if logType = ''log'' then Inr (Console_log finalMessage)
             else if logType = ''info'' then Inr (Console_info finalMessage)
             else if logType = ''warn'' then Inr (Console_warn finalMessage)
             else if logType = ''error'' then Inr (Console_error finalMessage)
             else Inl IncorrectLoggingTypeError)"

text \<open>
  \<open>GameLogger.fatalError(message)\<close> builds its message, which reads the caller
  information, and throws.
\<close>

definition GameLogger_fatalError :: "string list option \<Rightarrow> error" where
  "GameLogger_fatalError stackMatch =
     (case GameLogger_callerInfo stackMatch of
        Inl err \<Rightarrow> err
      | Inr info \<Rightarrow> ConstructionError)"

definition negative_message :: string where
  "negative_message = ''Game constructor: Negative values converted into positive.''"

text \<open>
  \<open>new Game(width, height, appendToElement)\<close>; the third argument of the model says
  whether \<open>appendToElement instanceof HTMLElement\<close>, the fourth is the stack that the
  logger finds when the constructor calls it. The field initialisers of the class
  give the other fields their first values; \<open>#lifecyclePromise\<close> starts as
  \<open>Promise.resolve()\<close>, and the constructor attaches its \<open>catch\<close> to that promise.
\<close>

definition initial_fields :: "number \<Rightarrow> number \<Rightarrow> console_entry list \<Rightarrow> Game" where
  "initial_fields width0 height0 written =
     \<lparr>width = Math_abs width0,
      height = Math_abs height0,
      renderingType = ''smooth'',
      smoothRenderingValue = ''low'',
      scale = Finite 1,
      loadedSprites = Map.empty,
      loadedGameObjects = Map.empty,
      loadedAudios = Map.empty,
      loadedGameMaps = Map.empty,
      loadedGameCameras = Map.empty,
      logsEnabled = False,
      loggedErros = {},
      loggedErrors = {},
      loggedExceptions = {},
      currentState = GameState_unset,
      lifecyclePromise = Fulfilled,
      updaterRunOnceKeys = {},
      deltaTimePreviousTime = 0,
      updateIsRunning = False,
      updateLoopLogic = False,
      keyboardEnabled = False,
      keyboardState = Map.empty,
      keyboardInstance = None,
      console = written\<rparr>"

definition constructor :: "number \<Rightarrow> number \<Rightarrow> bool \<Rightarrow> string list option \<Rightarrow> error + Game" where
  "constructor width0 height0 isHTMLElement stackMatch =
     (case (if number_less width0 (Finite 0) \<or> number_less height0 (Finite 0)
            then (case GameLogger_out ''warn'' negative_message stackMatch of
                    Inl err \<Rightarrow> Inl err
                  | Inr entry \<Rightarrow> Inr [entry])
            else Inr []) of
        Inl err \<Rightarrow> Inl err
      | Inr written \<Rightarrow>
          if \<not> isHTMLElement then Inl (GameLogger_fatalError stackMatch)
          else
            let g = initial_fields width0 height0 written
            in Inr (promise_catch (lifecyclePromise g) lifecycle_catch g))"

definition set_scale :: "number \<Rightarrow> Game \<Rightarrow> Game" where
  "set_scale scaleValue g = g\<lparr>scale := Math_abs scaleValue\<rparr>"

definition set_renderingType :: "string \<Rightarrow> Game \<Rightarrow> Game" where
  "set_renderingType rt g = g\<lparr>renderingType := rt\<rparr>"

text \<open>
  A method that can throw returns the exception, if any, next to the state it leaves
  behind.
\<close>

definition set_smoothingQuality :: "string \<Rightarrow> Game \<Rightarrow> error option \<times> Game" where
  "set_smoothingQuality smoothingQuality g =
     (if renderingType g \<noteq> ''smooth'' then (Some InvalidModeError, g)
      else (None, g\<lparr>smoothRenderingValue := smoothingQuality\<rparr>))"

definition keyboard :: "Game \<Rightarrow> error + GameKeyboard" where
  "keyboard g =
     (case keyboardInstance g of
        Some k \<Rightarrow> Inr k
      | None \<Rightarrow> Inl KeyboardNotInitializedError)"

section \<open>Lifecycle stages\<close>

text \<open>
  \<open>Promise.all\<close> over the waits of a list of assets, each given by its name and the
  signal of its element: it rejects as soon as one wait rejects (the reason names the
  asset; the failing signals are taken to fire in list order), stays pending when
  none rejects and one never settles, and is fulfilled otherwise.
\<close>

definition promise_all :: "(string \<times> load_signal) list \<Rightarrow> promise" where
  "promise_all waits =
     (case find (\<lambda>w. snd w = Fails) waits of
        Some w \<Rightarrow> Rejected (AssetLoadError (fst w))
      | None \<Rightarrow> if Stalls \<in> set (map snd waits) then Pending else Fulfilled)"

text \<open>The \<open>onload\<close> handler of a sprite and the \<open>canplaythrough\<close> handler of an audio.\<close>

definition sprite_onload :: "GameSprite \<Rightarrow> Game \<Rightarrow> Game" where
  "sprite_onload spr g =
     (if spr_element spr = Loads then
        let g1 = g\<lparr>loadedSprites := (loadedSprites g)(spr_name spr \<mapsto> spr)\<rparr>
        in if logsEnabled g1
           then g1\<lparr>console := console g1 @
                  [Console_log (''GameSprite: '' @ spr_name spr @ '' was sucessfully preloaded'')]\<rparr>
           else g1
      else g)"

definition audio_onCanPlayThrough :: "GameAudio \<Rightarrow> Game \<Rightarrow> Game" where
  "audio_onCanPlayThrough audio g =
     (if aud_element audio = Loads then
        let g1 = g\<lparr>loadedAudios := (loadedAudios g)(aud_name audio \<mapsto> audio)\<rparr>
        in if logsEnabled g1
           then g1\<lparr>console := console g1 @
                  [Console_log (''Audio: '' @ aud_name audio @ '' was sucessfully preloaded'')]\<rparr>
           else g1
      else g)"

text \<open>
  The two waits of the preload link, one after the other:
  \<open>await Promise.all(spriteLoadPromises); await Promise.all(audioLoadPromises)\<close>.
\<close>

definition preload_await :: "GameSprite list \<Rightarrow> GameAudio list \<Rightarrow> promise" where
  "preload_await sprites audios =
     (case promise_all (map (\<lambda>s. (spr_name s, spr_element s)) sprites) of
        Rejected err \<Rightarrow> Rejected err
      | Pending \<Rightarrow> Pending
      | Fulfilled \<Rightarrow> promise_all (map (\<lambda>a. (aud_name a, aud_element a)) audios))"

text \<open>
  The body of the preload link. The producer is given by what it does when called:
  it throws (\<open>Inl\<close>) or returns its assets (\<open>Inr\<close>). The handlers of the assets run
  whether or not the link rejects, so every asset whose ready signal fires ends up in
  its registry.
\<close>

definition preload_body :: "error + js_instance list \<Rightarrow> Game \<Rightarrow> promise \<times> Game" where
  "preload_body callbackFn g0 =
     (let g = g0\<lparr>currentState := GameState_preload\<rparr> in
      case callbackFn of
        Inl err \<Rightarrow> (Rejected err, g)
      | Inr assets \<Rightarrow>
          if length assets = 0 then (Rejected EmptyAssetListError, g)
          else
            let sprites = [s. InstSprite s \<leftarrow> assets];
                audios = [a. InstAudio a \<leftarrow> assets];
                g1 = fold sprite_onload sprites g;
                g2 = fold audio_onCanPlayThrough audios g1;
                settled = preload_await sprites audios
            in (settled,
                if settled = Fulfilled \<and> logsEnabled g2
                then g2\<lparr>console := console g2 @ [Console_info ''Preload step complete!'']\<rparr>
                else g2))"

definition preload :: "error + js_instance list \<Rightarrow> Game \<Rightarrow> Game" where
  "preload callbackFn g =
     (let r = promise_then (lifecyclePromise g) (preload_body callbackFn) g
      in (snd r)\<lparr>lifecyclePromise := fst r\<rparr>)"

text \<open>
  Modelled from the spec: the sources of \<open>GameSprite\<close>, \<open>GameAudio\<close>, \<open>GameObject\<close> and
  \<open>GameMap\<close> are not at hand. A lookup miss returns "a sentinel empty placeholder
  instance"; \<open>GameSprite.clone\<close> makes an independent copy of a sprite, which for values
  is the sprite itself.
\<close>

definition GameSprite_getEmptyInstance :: GameSprite where
  "GameSprite_getEmptyInstance =
     \<lparr>spr_name = [], spr_src = [], spr_element = Stalls,
      spr_pos = \<lparr>vx = 0, vy = 0\<rparr>, spr_size = \<lparr>vx = 0, vy = 0\<rparr>, spr_rotate = 0,
      spr_skew = \<lparr>vx = 0, vy = 0\<rparr>, spr_flip = \<lparr>flip_x = False, flip_y = False\<rparr>\<rparr>"

definition GameAudio_getEmptyInstance :: GameAudio where
  "GameAudio_getEmptyInstance = \<lparr>aud_name = [], aud_element = Stalls\<rparr>"

definition GameObject_getEmptyInstance :: GameObject where
  "GameObject_getEmptyInstance =
     \<lparr>name = [], sprite = GameSprite_getEmptyInstance,
      pos = \<lparr>vx = 0, vy = 0\<rparr>, size_xy = \<lparr>vx = 0, vy = 0\<rparr>,
      collision = \<lparr>col_x = JSUndefined, col_y = JSUndefined, col_w = JSUndefined, col_h = JSUndefined\<rparr>,
      layer = 0, instanceId = 0\<rparr>"

definition GameMap_getEmptyInstance :: GameMap where
  "GameMap_getEmptyInstance = \<lparr>map_name = [], map_sprite = GameSprite_getEmptyInstance\<rparr>"

definition GameSprite_clone :: "GameSprite \<Rightarrow> GameSprite" where
  "GameSprite_clone s = s"

text \<open>
  The accessor object handed to the load producer. Its lookups never throw. The
  producer is a function of the accessor, so what the accessor writes to the console
  (a miss, \<open>logAssets\<close>) is not recorded.
\<close>

record AssetsObject =
  getSprite :: "string \<Rightarrow> GameSprite"
  getAudio :: "string \<Rightarrow> GameAudio"

definition assetsManipulationObject :: "Game \<Rightarrow> AssetsObject" where
  "assetsManipulationObject g =
     \<lparr>getSprite = (\<lambda>spriteName.
        case loadedSprites g spriteName of Some spr \<Rightarrow> spr | None \<Rightarrow> GameSprite_getEmptyInstance),
      getAudio = (\<lambda>audioName.
        case loadedAudios g audioName of Some aud \<Rightarrow> aud | None \<Rightarrow> GameAudio_getEmptyInstance)\<rparr>"

definition set_gameObject :: "GameObject \<Rightarrow> Game \<Rightarrow> Game" where
  "set_gameObject gameObject g =
     g\<lparr>loadedGameObjects := (loadedGameObjects g)(name gameObject \<mapsto> gameObject)\<rparr>"

definition set_gameMap :: "GameMap \<Rightarrow> Game \<Rightarrow> Game" where
  "set_gameMap gameMap g =
     g\<lparr>loadedGameMaps := (loadedGameMaps g)(map_name gameMap \<mapsto> gameMap)\<rparr>"

definition set_gameCamera :: "GameCamera \<Rightarrow> Game \<Rightarrow> Game" where
  "set_gameCamera gameCamera g =
     g\<lparr>loadedGameCameras := (loadedGameCameras g)(cam_name gameCamera \<mapsto> gameCamera)\<rparr>"

definition load_body :: "(AssetsObject \<Rightarrow> error + js_instance list) \<Rightarrow> Game \<Rightarrow> promise \<times> Game" where
  "load_body callbackFn g0 =
     (let g = g0\<lparr>currentState := GameState_load\<rparr> in
      case callbackFn (assetsManipulationObject g) of
        Inl err \<Rightarrow> (Rejected err, g)
      | Inr objects \<Rightarrow>
          let gameObjects = [x. InstObject x \<leftarrow> objects];
              gameMaps = [m. InstMap m \<leftarrow> objects];
              gameCameras = [c. InstCamera c \<leftarrow> objects];
              g1 = fold set_gameObject gameObjects g;
              g2 = fold set_gameMap gameMaps g1;
              g3 = fold set_gameCamera gameCameras g2
          in (Fulfilled,
              if logsEnabled g3
              then g3\<lparr>console := console g3 @ [Console_info ''Load step complete!'']\<rparr>
              else g3))"

definition load :: "(AssetsObject \<Rightarrow> error + js_instance list) \<Rightarrow> Game \<Rightarrow> Game" where
  "load callbackFn g =
     (let r = promise_then (lifecyclePromise g) (load_body callbackFn) g
      in (snd r)\<lparr>lifecyclePromise := fst r\<rparr>)"

text \<open>
  The body of the update link creates the loop closure and asks for the first frame.
  The per-frame callback is not called here; it is an argument of each tick.
\<close>

definition update_body :: "Game \<Rightarrow> promise \<times> Game" where
  "update_body g0 =
     (let g = g0\<lparr>currentState := GameState_update, updateIsRunning := True\<rparr>;
          g1 = (if logsEnabled g
                then g\<lparr>console := console g @ [Console_info ''Update step started!'']\<rparr>
                else g)
      in (Fulfilled, g1\<lparr>updateLoopLogic := True\<rparr>))"

definition update :: "Game \<Rightarrow> Game" where
  "update g =
     (let r = promise_then (lifecyclePromise g) update_body g
      in (snd r)\<lparr>lifecyclePromise := fst r\<rparr>)"

section \<open>The frame loop\<close>

text \<open>
  One call of the per-frame callback: the timestamp of the tick, the elapsed time that
  was passed, and whether the callback returned (it did not when it threw).
\<close>

record callback_call =
  timestamp :: real
  deltaTime :: real
  returned :: bool

text \<open>
  One call of the loop closure with the timestamp \<open>currentTime\<close>. The result says how
  the per-frame callback was called, if it was. A callback that throws ends the tick
  at once: the previous time is not recorded.
\<close>

definition updateLoopLogic_tick ::
    "(real \<Rightarrow> Game \<Rightarrow> error option \<times> Game) \<Rightarrow> real \<Rightarrow> Game \<Rightarrow> callback_call option \<times> Game" where
  "updateLoopLogic_tick callbackFn currentTime g =
     (if currentState g \<noteq> GameState_update then (None, g)
      else
        let elapsed = (currentTime - deltaTimePreviousTime g) / 1000 in
        case callbackFn elapsed g of
          (Some err, g1) \<Rightarrow>
            (Some \<lparr>timestamp = currentTime, deltaTime = elapsed, returned = False\<rparr>, g1)
        | (None, g1) \<Rightarrow>
            (Some \<lparr>timestamp = currentTime, deltaTime = elapsed, returned = True\<rparr>,
             g1\<lparr>deltaTimePreviousTime := currentTime\<rparr>))"

section \<open>Pause, resume and end\<close>

definition pause :: "Game \<Rightarrow> Game" where
  "pause g =
     (if updateIsRunning g then
        let g1 = g\<lparr>currentState := GameState_unset, updateIsRunning := False\<rparr>
        in if logsEnabled g1
           then g1\<lparr>console := console g1 @ [Console_info ''Game stopped!'']\<rparr>
           else g1
      else g)"

definition resume :: "Game \<Rightarrow> Game" where
  "resume g =
     (if \<not> updateIsRunning g then
        let g1 = g\<lparr>currentState := GameState_update, updateIsRunning := True\<rparr>
        in if logsEnabled g1
           then g1\<lparr>console := console g1 @ [Console_info ''Game resumed!'']\<rparr>
           else g1
      else g)"

text \<open>
  \<open>end()\<close>, named \<open>end_game\<close> here. It clears the five registries, the keyboard state
  and the set \<open>#loggedErros\<close>; these are all the \<open>clear()\<close> calls of the method.
\<close>

definition end_game :: "Game \<Rightarrow> Game" where
  "end_game g0 =
     (let g1 = g0\<lparr>logsEnabled := False\<rparr>;
          g2 = pause g1;
          g3 = g2\<lparr>keyboardInstance := map_option removeListener (keyboardInstance g2)\<rparr>;
          g4 = g3\<lparr>loadedAudios := Map.empty,
                   loadedGameCameras := Map.empty,
                   loadedGameMaps := Map.empty,
                   loadedGameObjects := Map.empty,
                   loadedSprites := Map.empty,
                   keyboardState := Map.empty,
                   loggedErros := {}\<rparr>
      in g4\<lparr>console := console g4 @ [Console_info ''Game ended!'']\<rparr>)"

section \<open>The updater object\<close>

text \<open>
  \<open>updater.pause\<close> and \<open>updater.resume\<close> make the same assignments as the methods of
  the engine. \<open>updater.runOnce\<close> runs its callback when the key is new and adds the
  key afterwards; a callback that throws leaves the key out.
\<close>

definition updater_pause :: "Game \<Rightarrow> Game" where
  "updater_pause g = pause g"

definition updater_resume :: "Game \<Rightarrow> Game" where
  "updater_resume g = resume g"

definition updater_runOnce :: "string \<Rightarrow> (Game \<Rightarrow> error option \<times> Game) \<Rightarrow> Game \<Rightarrow> error option \<times> Game" where
  "updater_runOnce identifier callbackFn g =
     (if identifier \<notin> updaterRunOnceKeys g then
        case callbackFn g of
          (Some err, g1) \<Rightarrow> (Some err, g1)
        | (None, g1) \<Rightarrow>
            let g2 = (if logsEnabled g1
                      then g1\<lparr>console := console g1 @
                             [Console_info (''Runned once with the ID: '' @ identifier)]\<rparr>
                      else g1)
            in (None, g2\<lparr>updaterRunOnceKeys := insert identifier (updaterRunOnceKeys g2)\<rparr>)
      else (None, g))"

text \<open>
  The lookups of the updater object. A miss is written to the console once per name,
  when logging is on: the name is remembered in \<open>#loggedErros\<close> under the key
  \<open>loadError: name\<close>. The first argument of \<open>log_miss\<close> says whether the name is absent from
  the registry that was asked.
\<close>

definition apostrophe :: string where
  "apostrophe = [CHR 0x27]"

definition log_miss :: "bool \<Rightarrow> string \<Rightarrow> string \<Rightarrow> string \<Rightarrow> Game \<Rightarrow> Game" where
  "log_miss absent kind resourceName advice g =
     (if logsEnabled g \<and> absent \<and> (''loadError: '' @ resourceName) \<notin> loggedErros g
      then g\<lparr>console := console g @
               [Console_error (''Named '' @ kind @ '' '' @ apostrophe @ resourceName @ apostrophe @
                  '' was not found in the '' @ advice)],
             loggedErros := insert (''loadError: '' @ resourceName) (loggedErros g)\<rparr>
      else g)"

definition preloaded_advice :: string where
  "preloaded_advice =
     ''preloaded resources, check if you preloaded it correctly and gave it the right name''"

definition loaded_advice :: string where
  "loaded_advice =
     ''loaded resources, check if you loaded it correctly and gave it the right name''"

definition updater_getSprite :: "string \<Rightarrow> Game \<Rightarrow> GameSprite \<times> Game" where
  "updater_getSprite spriteName g =
     (let g1 = log_miss (loadedSprites g spriteName = None) ''sprite asset'' spriteName preloaded_advice g
      in case loadedSprites g1 spriteName of
           Some spr \<Rightarrow> (spr, g1)
         | None \<Rightarrow> (GameSprite_getEmptyInstance, g1))"

definition updater_getAudio :: "string \<Rightarrow> Game \<Rightarrow> GameAudio \<times> Game" where
  "updater_getAudio audioName g =
     (let g1 = log_miss (loadedAudios g audioName = None) ''audio asset'' audioName preloaded_advice g
      in case loadedAudios g1 audioName of
           Some aud \<Rightarrow> (aud, g1)
         | None \<Rightarrow> (GameAudio_getEmptyInstance, g1))"

definition updater_getObject :: "string \<Rightarrow> Game \<Rightarrow> GameObject \<times> Game" where
  "updater_getObject gameObjectName g =
     (let g1 = log_miss (loadedGameObjects g gameObjectName = None) ''game object'' gameObjectName loaded_advice g
      in case loadedGameObjects g1 gameObjectName of
           Some obj \<Rightarrow> (obj, g1)
         | None \<Rightarrow> (GameObject_getEmptyInstance, g1))"

definition updater_getMap :: "string \<Rightarrow> Game \<Rightarrow> GameMap \<times> Game" where
  "updater_getMap gameMapName g =
     (let g1 = log_miss (loadedGameMaps g gameMapName = None) ''game map'' gameMapName loaded_advice g
      in case loadedGameMaps g1 gameMapName of
           Some m \<Rightarrow> (m, g1)
         | None \<Rightarrow> (GameMap_getEmptyInstance, g1))"

text \<open>
  \<open>updater.animateFromName\<close> logs a miss like \<open>getObject\<close> and draws the entity when it is
  there; \<open>animate\<close> and \<open>animateMany\<close> only draw. \<open>updater.logObjects\<close> writes the three
  registries of the load stage to the console.
\<close>

definition updater_animateFromName :: "string \<Rightarrow> Game \<Rightarrow> Game" where
  "updater_animateFromName gameObjectName g =
     log_miss (loadedGameObjects g gameObjectName = None) ''game object'' gameObjectName loaded_advice g"

definition updater_logObjects :: "Game \<Rightarrow> Game" where
  "updater_logObjects g =
     (if logsEnabled g
      then g\<lparr>console := console g @
               [Console_log ''Currently loaded game objects: '',
                Console_log ''Currently loaded game maps: '',
                Console_log ''Currently loaded game maps: '']\<rparr>
      else g)"

section \<open>Utility operations\<close>

definition removal_notice :: "string \<Rightarrow> Game \<Rightarrow> Game" where
  "removal_notice targetName g =
     (if logsEnabled g
      then g\<lparr>console := console g @ [Console_warn (targetName @ '' was removed from the scene!'')]\<rparr>
      else g)"

definition removeObject :: "js_instance \<Rightarrow> Game \<Rightarrow> Game" where
  "removeObject targetObject g =
     (case targetObject of
        InstSprite s \<Rightarrow>
          if loadedSprites g (spr_name s) \<noteq> None
          then removal_notice (spr_name s) (g\<lparr>loadedSprites := (loadedSprites g)(spr_name s := None)\<rparr>)
          else g
      | InstObject ob \<Rightarrow>
          if loadedGameObjects g (name ob) \<noteq> None
          then removal_notice (name ob) (g\<lparr>loadedGameObjects := (loadedGameObjects g)(name ob := None)\<rparr>)
          else g
      | InstAudio a \<Rightarrow> g
      | InstMap m \<Rightarrow> g
      | InstCamera c \<Rightarrow> g)"

text \<open>
  \<open>outbound(targetObject, screenThreshold, callbackFn)\<close>; the callback is optional and
  the engine pauses when there is none.
\<close>

definition outbound ::
    "GameObject \<Rightarrow> number \<Rightarrow> (Game \<Rightarrow> error option \<times> Game) option \<Rightarrow> Game \<Rightarrow> error option \<times> Game" where
  "outbound targetObject screenThreshold callbackFn g =
     (let auxWidth = (if screenThreshold \<noteq> Finite 1 then width g else Finite 0);
          auxHeight = (if screenThreshold \<noteq> Finite 1 then width g else Finite 0)
      in if number_less (number_mult (width g) screenThreshold) (Finite (vx (pos targetObject))) \<or>
            number_less
              (number_add (Finite (vx (pos targetObject)))
                 (number_mult (Finite (vx (size_xy targetObject))) (scale g)))
              (number_mult (number_mult (Finite 0) auxWidth) screenThreshold) \<or>
            number_less (number_mult (height g) screenThreshold) (Finite (vy (pos targetObject))) \<or>
            number_less
              (number_add (Finite (vy (pos targetObject)))
                 (number_mult (Finite (vy (size_xy targetObject))) (scale g)))
              (number_mult (number_mult (Finite 0) auxHeight) screenThreshold)
         then (case callbackFn of
                 Some cb \<Rightarrow> cb g
               | None \<Rightarrow> (None, pause g))
         else (None, g))"

text \<open>The decimal digits of a number, as the template literal \<open>${i + 1}\<close> writes them.\<close>

fun string_of_nat :: "nat \<Rightarrow> string" where
  "string_of_nat n =
     (if n < 10 then [''0123456789'' ! n]
      else string_of_nat (n div 10) @ [''0123456789'' ! (n mod 10)])"

declare string_of_nat.simps [simp del]

text \<open>
  Modelled from the spec: the source of \<open>GameObject\<close> is not at hand. An entity has a
  "name (unique key), owned Sprite, position/size, collision rectangle (optional),
  layer ordinal, instance counter"; the constructor \<open>new GameObject(name, sprite, layer)\<close>
  stores its three arguments, takes position and size from the sprite, and starts
  with no collision rectangle and the counter at 0.
\<close>

definition GameObject_new :: "string \<Rightarrow> GameSprite \<Rightarrow> int \<Rightarrow> GameObject" where
  "GameObject_new objectName spr objectLayer =
     \<lparr>name = objectName, sprite = spr, pos = spr_pos spr, size_xy = spr_size spr,
      collision = \<lparr>col_x = JSUndefined, col_y = JSUndefined, col_w = JSUndefined, col_h = JSUndefined\<rparr>,
      layer = objectLayer, instanceId = 0\<rparr>"

text \<open>
  The entity that round \<open>i\<close> of the loop of \<open>instantiate\<close> creates:
  \<open>new GameObject(`${targetObject.name}-${i + 1}`, GameSprite.clone(targetObject.sprite),
  targetObject.layer)\<close>, followed by \<open>newObject.instanceId++\<close>.
\<close>

definition new_instance :: "GameObject \<Rightarrow> nat \<Rightarrow> GameObject" where
  "new_instance targetObject i =
     (let created = GameObject_new (name targetObject @ ''-'' @ string_of_nat (i + 1))
                      (GameSprite_clone (sprite targetObject)) (layer targetObject)
      in created\<lparr>instanceId := instanceId created + 1\<rparr>)"

text \<open>
  One round of the loop, on the list of instances collected so far and the engine
  state: the entity is stored unless its name is taken, and pushed when its name is in
  the registry.
\<close>

definition instantiate_step :: "GameObject \<Rightarrow> nat \<Rightarrow> GameObject list \<times> Game \<Rightarrow> GameObject list \<times> Game" where
  "instantiate_step targetObject i acc =
     (let instances = fst acc;
          g = snd acc;
          newObject = new_instance targetObject i;
          g1 = (if loadedGameObjects g (name newObject) = None
                then g\<lparr>loadedGameObjects := (loadedGameObjects g)(name newObject \<mapsto> newObject)\<rparr>
                else g);
          instances1 = (if loadedGameObjects g1 (name newObject) \<noteq> None
                        then instances @ [newObject]
                        else instances)
      in (instances1, g1))"

text \<open>
  \<open>instantiate(targetObject, quantity)\<close>: the loop runs for \<open>i = 0, ..., quantity - 1\<close>.
  The static flag \<open>GameObject.instanceOfObject\<close>, set before the loop and reset after
  it, belongs to the class \<open>GameObject\<close> and is not modelled.
\<close>

definition instantiate :: "GameObject \<Rightarrow> nat \<Rightarrow> Game \<Rightarrow> GameObject list \<times> Game" where
  "instantiate targetObject quantity g =
     fold (instantiate_step targetObject) [0..<quantity] ([], g)"

text \<open>
  The four \<open>typeof\<close> tests of \<open>colliding\<close> on one collision rectangle, with the numbers
  they let through.
\<close>

definition numbers :: "Collision \<Rightarrow> (real \<times> real \<times> real \<times> real) option" where
  "numbers c =
     (case col_x c of JSUndefined \<Rightarrow> None | JSNumber x \<Rightarrow>
      (case col_y c of JSUndefined \<Rightarrow> None | JSNumber y \<Rightarrow>
       (case col_w c of JSUndefined \<Rightarrow> None | JSNumber w \<Rightarrow>
        (case col_h c of JSUndefined \<Rightarrow> None | JSNumber h \<Rightarrow> Some (x, y, w, h)))))"

definition colliding :: "GameObject \<Rightarrow> GameObject \<Rightarrow> Game \<Rightarrow> bool \<times> Game" where
  "colliding object1 object2 g =
     (case (numbers (collision object1), numbers (collision object2)) of
        (Some (x1, y1, w1, h1), Some (x2, y2, w2, h2)) \<Rightarrow>
          if vx (pos object1) \<le> vx (pos object2) + w2 \<and>
             vx (pos object1) + w1 \<ge> vx (pos object2) \<and>
             vy (pos object1) \<le> vy (pos object2) + h2 \<and>
             vy (pos object1) + h1 \<ge> vy (pos object2)
          then (True,
                if logsEnabled g
                then g\<lparr>console := console g @
                       [Console_log (''Collision between '' @ name object1 @ '' and '' @ name object2)]\<rparr>
                else g)
          else (False, g)
      | _ \<Rightarrow> (False, g))"

text \<open>
  \<open>useLogs()\<close> announces itself through the logger before it turns logging on; its
  first argument is the stack that the logger finds.
\<close>

definition useLogs :: "string list option \<Rightarrow> Game \<Rightarrow> error option \<times> Game" where
  "useLogs stackMatch g =
     (if \<not> logsEnabled g
      then (case GameLogger_out ''info'' ''Utility logs are now enabled.'' stackMatch of
              Inl err \<Rightarrow> (Some err, g)
            | Inr entry \<Rightarrow> (None, g\<lparr>console := console g @ [entry], logsEnabled := True\<rparr>))
      else (None, g))"

definition useKeyboard :: "Game \<Rightarrow> Game" where
  "useKeyboard g = g\<lparr>keyboardInstance := Some GameKeyboard_new, keyboardEnabled := True\<rparr>"

section \<open>Programs over the public interface and reachable states\<close>

text \<open>
  What the code of a user can do to an engine: the calls of the public interface and,
  inside the per-frame callback, those of the updater object. A callback is a list of
  such calls.
\<close>

datatype command =
    SetScale number
  | SetRenderingType string
  | SetSmoothingQuality string
  | GetKeyboard
  | Preload "error + js_instance list"
  | Load "AssetsObject \<Rightarrow> error + js_instance list"
  | Update
  | Pause
  | Resume
  | End
  | RemoveObject js_instance
  | Outbound GameObject number "command list option"
  | Instantiate GameObject nat
  | Colliding GameObject GameObject
  | UseLogs "string list option"
  | UseKeyboard
  | UpdaterPause
  | UpdaterResume
  | RunOnce string "command list"
  | UpdaterGetSprite string
  | UpdaterGetAudio string
  | UpdaterGetObject string
  | UpdaterGetMap string
  | AnimateFromName string
  | LogObjects

text \<open>A list of calls stops at the first one that throws.\<close>

fun exec :: "command \<Rightarrow> Game \<Rightarrow> error option \<times> Game"
  and exec_all :: "command list \<Rightarrow> Game \<Rightarrow> error option \<times> Game" where
  "exec (SetScale v) = (\<lambda>g. (None, set_scale v g))"
| "exec (SetRenderingType rt) = (\<lambda>g. (None, set_renderingType rt g))"
| "exec (SetSmoothingQuality q) = set_smoothingQuality q"
| "exec GetKeyboard = (\<lambda>g. (case keyboard g of Inl err \<Rightarrow> (Some err, g) | Inr k \<Rightarrow> (None, g)))"
| "exec (Preload callbackFn) = (\<lambda>g. (None, preload callbackFn g))"
| "exec (Load callbackFn) = (\<lambda>g. (None, load callbackFn g))"
| "exec Update = (\<lambda>g. (None, update g))"
| "exec Pause = (\<lambda>g. (None, pause g))"
| "exec Resume = (\<lambda>g. (None, resume g))"
| "exec End = (\<lambda>g. (None, end_game g))"
| "exec (RemoveObject targetObject) = (\<lambda>g. (None, removeObject targetObject g))"
| "exec (Outbound targetObject screenThreshold None) = outbound targetObject screenThreshold None"
| "exec (Outbound targetObject screenThreshold (Some cs)) =
     outbound targetObject screenThreshold (Some (exec_all cs))"
| "exec (Instantiate targetObject quantity) = (\<lambda>g. (None, snd (instantiate targetObject quantity g)))"
| "exec (Colliding object1 object2) = (\<lambda>g. (None, snd (colliding object1 object2 g)))"
| "exec (UseLogs stackMatch) = useLogs stackMatch"
| "exec UseKeyboard = (\<lambda>g. (None, useKeyboard g))"
| "exec UpdaterPause = (\<lambda>g. (None, updater_pause g))"
| "exec UpdaterResume = (\<lambda>g. (None, updater_resume g))"
| "exec (RunOnce identifier cs) = updater_runOnce identifier (exec_all cs)"
| "exec (UpdaterGetSprite spriteName) = (\<lambda>g. (None, snd (updater_getSprite spriteName g)))"
| "exec (UpdaterGetAudio audioName) = (\<lambda>g. (None, snd (updater_getAudio audioName g)))"
| "exec (UpdaterGetObject gameObjectName) = (\<lambda>g. (None, snd (updater_getObject gameObjectName g)))"
| "exec (UpdaterGetMap gameMapName) = (\<lambda>g. (None, snd (updater_getMap gameMapName g)))"
| "exec (AnimateFromName gameObjectName) = (\<lambda>g. (None, updater_animateFromName gameObjectName g))"
| "exec LogObjects = (\<lambda>g. (None, updater_logObjects g))"
| "exec_all [] = (\<lambda>g. (None, g))"
| "exec_all (c # cs) =
     (\<lambda>g. case exec c g of
             (Some err, g1) \<Rightarrow> (Some err, g1)
           | (None, g1) \<Rightarrow> exec_all cs g1)"

text \<open>
  The states an engine can be in: it is constructed on a valid element, and then the
  user's code calls it, or the host calls the loop closure (once the update link has
  created it) with a timestamp; the per-frame callback is a program that may depend on
  the elapsed time and on the state it finds.
\<close>

inductive reachable :: "Game \<Rightarrow> bool" where
  reachable_new: "constructor w h True stackMatch = Inr g \<Longrightarrow> reachable g"
| reachable_call: "reachable g \<Longrightarrow> reachable (snd (exec c g))"
| reachable_tick: "reachable g \<Longrightarrow> updateLoopLogic g \<Longrightarrow>
     reachable (snd (updateLoopLogic_tick (\<lambda>dt s. exec_all (program dt s) s) t g))"

text \<open>
  A run of an engine: the calls of the user's code and the frames of the host, in the
  order in which they happen. A frame calls the loop closure, when the update link has
  created it, with a timestamp. The run yields the calls of the per-frame callback, in
  order.
\<close>

datatype event =
    Call command
  | Frame "real \<Rightarrow> Game \<Rightarrow> command list" real

fun run_events :: "event list \<Rightarrow> Game \<Rightarrow> callback_call list \<times> Game" where
  "run_events [] g = ([], g)"
| "run_events (Call c # evs) g = run_events evs (snd (exec c g))"
| "run_events (Frame program t # evs) g =
     (if updateLoopLogic g then
        let r = updateLoopLogic_tick (\<lambda>dt s. exec_all (program dt s) s) t g;
            rest = run_events evs (snd r)
        in (case fst r of None \<Rightarrow> fst rest | Some c \<Rightarrow> c # fst rest, snd rest)
      else run_events evs g)"

section \<open>Properties stated by the specification\<close>

text \<open>A number that is never below zero: it is \<open>NaN\<close>, or \<open>0 <= v\<close> holds.\<close>

definition never_negative :: "number \<Rightarrow> bool" where
  "never_negative v = (v = NaN \<or> number_le (Finite 0) v)"

text \<open>
  What holds of every reachable engine, as one predicate: the dimensions and the global
  scale are never below zero, and the lifecycle state is not \<open>GameState.error\<close>.
\<close>

definition engine_invariant :: "Game \<Rightarrow> bool" where
  "engine_invariant g =
     (never_negative (width g) \<and> never_negative (height g) \<and> never_negative (scale g) \<and>
      currentState g \<noteq> GameState_error)"

text \<open>
  The timestamp to which a call of the per-frame callback is compared: that of the
  latest earlier call that returned, and \<open>start\<close> when there is none.
\<close>

definition previous_return :: "real \<Rightarrow> callback_call list \<Rightarrow> real" where
  "previous_return start earlier =
     (case filter returned (rev earlier) of
        [] \<Rightarrow> start
      | c # cs \<Rightarrow> timestamp c)"

text \<open>
  The collision test in the words of the specification: both collision rectangles are
  fully given, and the two boxes, each placed at the position plus the collision offset
  and as large as the collision size, overlap, touching edges included. This is also
  the rectangle that \<open>useShowCollisions\<close> draws for an entity.
\<close>

definition colliding_spec :: "GameObject \<Rightarrow> GameObject \<Rightarrow> bool" where
  "colliding_spec object1 object2 =
     (case (numbers (collision object1), numbers (collision object2)) of
        (Some (x1, y1, w1, h1), Some (x2, y2, w2, h2)) \<Rightarrow>
          vx (pos object1) + x1 \<le> vx (pos object2) + x2 + w2 \<and>
          vx (pos object1) + x1 + w1 \<ge> vx (pos object2) + x2 \<and>
          vy (pos object1) + y1 \<le> vy (pos object2) + y2 + h2 \<and>
          vy (pos object1) + y1 + h1 \<ge> vy (pos object2) + y2
      | _ \<Rightarrow> False)"

section \<open>A small game\<close>

text \<open>
  The scenario of the specification: an engine of 320 by 240 on a valid element, one
  sprite whose ready signal fires, one entity named hero that uses it, and an update
  callback. The other values are the inputs at which the properties below are tried.
\<close>

definition hero_sprite :: GameSprite where
  "hero_sprite =
     \<lparr>spr_name = ''spr_hero'', spr_src = ''./spr_hero.png'', spr_element = Loads,
      spr_pos = \<lparr>vx = 0, vy = 0\<rparr>, spr_size = \<lparr>vx = 16, vy = 16\<rparr>, spr_rotate = 0,
      spr_skew = \<lparr>vx = 0, vy = 0\<rparr>, spr_flip = \<lparr>flip_x = False, flip_y = False\<rparr>\<rparr>"

definition broken_sprite :: GameSprite where
  "broken_sprite = hero_sprite\<lparr>spr_name := ''spr_broken'', spr_element := Fails\<rparr>"

definition hero :: GameObject where
  "hero = GameObject_new ''hero'' hero_sprite 0"

text \<open>The places that the logger finds in the stack when the engine calls it.\<close>

definition usual_stack :: "string list option" where
  "usual_stack = Some [''GameLogger.js:10:17'', ''GameLogger.js:27:40'', ''Game.js:82:13'', ''main.js:3:14'']"

definition new_game :: Game where
  "new_game = projr (constructor (Finite 320) (Finite 240) True usual_stack)"

definition running_game :: Game where
  "running_game =
     update
       (load (\<lambda>assets. Inr [InstObject (GameObject_new ''hero'' (getSprite assets ''spr_hero'') 0)])
          (preload (Inr [InstSprite hero_sprite]) new_game))"




text \<open>One frame in which the callback runs a block once, under the key intro.\<close>

definition played_game :: Game where
  "played_game =
     snd (updateLoopLogic_tick (\<lambda>dt. exec_all [RunOnce ''intro'' [SetScale (Finite 2)]]) 16 running_game)"

text \<open>An engine in which the name hero-1 is already taken, by an entity on layer 7.\<close>

definition taken_game :: Game where
  "taken_game = load (\<lambda>assets. Inr [InstObject (GameObject_new ''hero-1'' hero_sprite 7)]) new_game"

text \<open>
  Two entities with collision rectangles of 10 by 10: the first at the origin with its
  rectangle offset by 100 to the right, the second at (5, 0) with no offset.
\<close>

definition offset_box :: GameObject where
  "offset_box =
     (GameObject_new ''a'' hero_sprite 0)
       \<lparr>collision := \<lparr>col_x = JSNumber 100, col_y = JSNumber 0, col_w = JSNumber 10, col_h = JSNumber 10\<rparr>\<rparr>"

definition plain_box :: GameObject where
  "plain_box =
     (GameObject_new ''b'' hero_sprite 0)
       \<lparr>pos := \<lparr>vx = 5, vy = 0\<rparr>,
        collision := \<lparr>col_x = JSNumber 0, col_y = JSNumber 0, col_w = JSNumber 10, col_h = JSNumber 10\<rparr>\<rparr>"

section \<open>The invariant of reachable engines\<close>

text \<open>
  Every operation keeps the invariant: the only assignments to the width and the height
  are those of the constructor, the only assignment to the scale is the setter's, and
  the only assignment of \<open>GameState.error\<close> is in the handler that the constructor
  attaches to the promise \<open>Promise.resolve()\<close>, which is never rejected. Both assignments
  store an absolute value, which is \<open>NaN\<close> or at least 0.
\<close>

lemma fold_invariant:
  assumes "\<And>x s. engine_invariant s \<Longrightarrow> engine_invariant (step x s)" and "engine_invariant g"
  shows "engine_invariant (fold step xs g)"
  using assms(2) by (induction xs arbitrary: g) (simp_all add: assms(1))

lemma never_negative_abs: "never_negative (Math_abs v)"
  by (cases v) (simp_all add: never_negative_def number_le_def)

lemma inv_initial_fields: "engine_invariant (initial_fields w h written)"
  by (simp add: initial_fields_def engine_invariant_def never_negative_abs)
     (simp add: never_negative_def number_le_def)

lemma constructor_Inr:
  "constructor w h el stackMatch = Inr g \<Longrightarrow> \<exists>written. g = initial_fields w h written"
  by (auto simp: constructor_def promise_catch_def initial_fields_def Let_def
      split: if_splits sum.splits)

lemma inv_constructor: "constructor w h el stackMatch = Inr g \<Longrightarrow> engine_invariant g"
  using constructor_Inr [of w h el stackMatch g] by (auto simp: inv_initial_fields)

lemma inv_set_scale: "engine_invariant g \<Longrightarrow> engine_invariant (set_scale v g)"
  by (simp add: engine_invariant_def set_scale_def never_negative_abs)

lemma inv_set_renderingType: "engine_invariant g \<Longrightarrow> engine_invariant (set_renderingType rt g)"
  by (simp add: engine_invariant_def set_renderingType_def)

lemma inv_set_smoothingQuality: "engine_invariant g \<Longrightarrow> engine_invariant (snd (set_smoothingQuality q g))"
  by (simp add: engine_invariant_def set_smoothingQuality_def)

lemma inv_sprite_onload: "engine_invariant g \<Longrightarrow> engine_invariant (sprite_onload s g)"
  by (simp add: sprite_onload_def engine_invariant_def Let_def)

lemma inv_audio_onCanPlayThrough: "engine_invariant g \<Longrightarrow> engine_invariant (audio_onCanPlayThrough a g)"
  by (simp add: audio_onCanPlayThrough_def engine_invariant_def Let_def)

lemma inv_preload_body: 
  assumes "engine_invariant g" shows "engine_invariant (snd (preload_body cb g))"
proof -
  let ?g = "g\<lparr>currentState := GameState_preload\<rparr>"
  have start: "engine_invariant ?g"
    using assms by (simp add: engine_invariant_def)
  have sprites: "engine_invariant (fold sprite_onload ss ?g)" for ss
    by (rule fold_invariant) (simp_all add: inv_sprite_onload start)
  have loaded: "engine_invariant (fold audio_onCanPlayThrough as (fold sprite_onload ss ?g))" for ss as
    by (rule fold_invariant) (simp_all add: inv_audio_onCanPlayThrough sprites)
  have logged: "engine_invariant (s\<lparr>console := c\<rparr>)" if "engine_invariant s" for s c
    using that by (simp add: engine_invariant_def)
  show ?thesis
    by (simp add: preload_body_def Let_def start loaded logged split: sum.splits)
qed

lemma inv_link:
  assumes "engine_invariant g" and "\<And>s. engine_invariant s \<Longrightarrow> engine_invariant (snd (body s))"
  shows "engine_invariant ((snd (promise_then (lifecyclePromise g) body g))\<lparr>lifecyclePromise := p\<rparr>)"
proof -
  have "engine_invariant (snd (promise_then (lifecyclePromise g) body g))"
    using assms by (simp add: promise_then_def split: promise.splits)
  then show ?thesis
    by (simp add: engine_invariant_def)
qed

lemma inv_preload: "engine_invariant g \<Longrightarrow> engine_invariant (preload cb g)"
  unfolding preload_def Let_def by (rule inv_link) (simp_all add: inv_preload_body)

lemma inv_load_body:
  assumes "engine_invariant g" shows "engine_invariant (snd (load_body cb g))"
proof -
  let ?g = "g\<lparr>currentState := GameState_load\<rparr>"
  have start: "engine_invariant ?g"
    using assms by (simp add: engine_invariant_def)
  have a: "engine_invariant (set_gameObject x s)" if "engine_invariant s" for x s
    using that by (simp add: engine_invariant_def set_gameObject_def)
  have b: "engine_invariant (set_gameMap x s)" if "engine_invariant s" for x s
    using that by (simp add: engine_invariant_def set_gameMap_def)
  have c: "engine_invariant (set_gameCamera x s)" if "engine_invariant s" for x s
    using that by (simp add: engine_invariant_def set_gameCamera_def)
  have objects: "engine_invariant (fold set_gameObject os ?g)" for os
    by (rule fold_invariant) (simp_all add: a start)
  have maps: "engine_invariant (fold set_gameMap ms (fold set_gameObject os ?g))" for ms os
    by (rule fold_invariant) (simp_all add: b objects)
  have loaded: "engine_invariant (fold set_gameCamera cs (fold set_gameMap ms (fold set_gameObject os ?g)))" for cs ms os
    by (rule fold_invariant) (simp_all add: c maps)
  have logged: "engine_invariant (s\<lparr>console := c\<rparr>)" if "engine_invariant s" for s c
    using that by (simp add: engine_invariant_def)
  show ?thesis
    by (simp add: load_body_def Let_def start loaded logged split: sum.splits)
qed

lemma inv_load: "engine_invariant g \<Longrightarrow> engine_invariant (load cb g)"
  unfolding load_def Let_def by (rule inv_link) (simp_all add: inv_load_body)

lemma inv_update_body: "engine_invariant g \<Longrightarrow> engine_invariant (snd (update_body g))"
  by (simp add: update_body_def engine_invariant_def Let_def)

lemma inv_update: "engine_invariant g \<Longrightarrow> engine_invariant (update g)"
  unfolding update_def Let_def by (rule inv_link) (simp_all add: inv_update_body)

lemma inv_pause: "engine_invariant g \<Longrightarrow> engine_invariant (pause g)"
  by (simp add: pause_def engine_invariant_def Let_def)

lemma inv_resume: "engine_invariant g \<Longrightarrow> engine_invariant (resume g)"
  by (simp add: resume_def engine_invariant_def Let_def)

lemma inv_end_game: 
  assumes "engine_invariant g" shows "engine_invariant (end_game g)"
proof -
  have "engine_invariant (pause (g\<lparr>logsEnabled := False\<rparr>))"
    using assms by (intro inv_pause) (simp add: engine_invariant_def)
  then show ?thesis
    by (simp add: end_game_def Let_def engine_invariant_def)
qed

lemma inv_removeObject: "engine_invariant g \<Longrightarrow> engine_invariant (removeObject x g)"
  by (simp add: removeObject_def removal_notice_def engine_invariant_def split: js_instance.splits)

lemma inv_outbound:
  assumes "engine_invariant g" and "\<And>cb s. callbackFn = Some cb \<Longrightarrow> engine_invariant s \<Longrightarrow> engine_invariant (snd (cb s))"
  shows "engine_invariant (snd (outbound ob thr callbackFn g))"
  using assms by (simp add: outbound_def Let_def inv_pause split: option.splits)

lemma inv_instantiate_step: "engine_invariant (snd acc) \<Longrightarrow> engine_invariant (snd (instantiate_step ob i acc))"
  by (simp add: instantiate_step_def Let_def engine_invariant_def)

lemma inv_instantiate: 
  assumes "engine_invariant g" shows "engine_invariant (snd (instantiate ob n g))"
proof -
  have "engine_invariant (snd (fold (instantiate_step ob) is acc))" if "engine_invariant (snd acc)" for "is" acc
    using that by (induction "is" arbitrary: acc) (simp_all add: inv_instantiate_step)
  then show ?thesis
    by (simp add: instantiate_def assms)
qed

lemma inv_colliding: "engine_invariant g \<Longrightarrow> engine_invariant (snd (colliding a b g))"
  by (simp add: colliding_def engine_invariant_def split: option.splits prod.splits)

lemma inv_useLogs: "engine_invariant g \<Longrightarrow> engine_invariant (snd (useLogs stackMatch g))"
  by (simp add: useLogs_def engine_invariant_def split: sum.splits)

lemma inv_useKeyboard: "engine_invariant g \<Longrightarrow> engine_invariant (useKeyboard g)"
  by (simp add: useKeyboard_def engine_invariant_def)

lemma inv_updater_runOnce:
  assumes "engine_invariant g" and "\<And>s. engine_invariant s \<Longrightarrow> engine_invariant (snd (cb s))"
  shows "engine_invariant (snd (updater_runOnce k cb g))"
proof (cases "cb g")
  case (Pair r g1)
  with assms have "engine_invariant g1"
    by (metis snd_conv)
  with Pair assms(1) show ?thesis
    by (simp add: updater_runOnce_def Let_def engine_invariant_def split: option.splits)
qed

lemma inv_log_miss: "engine_invariant g \<Longrightarrow> engine_invariant (log_miss absent kind n advice g)"
  by (simp add: log_miss_def engine_invariant_def)

lemma inv_updater_lookups:
  assumes "engine_invariant g"
  shows "engine_invariant (snd (updater_getSprite n g))"
    and "engine_invariant (snd (updater_getAudio n g))"
    and "engine_invariant (snd (updater_getObject n g))"
    and "engine_invariant (snd (updater_getMap n g))"
    and "engine_invariant (updater_animateFromName n g)"
    and "engine_invariant (updater_logObjects g)"
proof -
  show "engine_invariant (snd (updater_getSprite n g))"
    by (simp add: updater_getSprite_def Let_def inv_log_miss assms split: option.splits)
  show "engine_invariant (snd (updater_getAudio n g))"
    by (simp add: updater_getAudio_def Let_def inv_log_miss assms split: option.splits)
  show "engine_invariant (snd (updater_getObject n g))"
    by (simp add: updater_getObject_def Let_def inv_log_miss assms split: option.splits)
  show "engine_invariant (snd (updater_getMap n g))"
    by (simp add: updater_getMap_def Let_def inv_log_miss assms split: option.splits)
  show "engine_invariant (updater_animateFromName n g)"
    by (simp add: updater_animateFromName_def inv_log_miss assms)
  show "engine_invariant (updater_logObjects g)"
    using assms by (simp add: updater_logObjects_def engine_invariant_def)
qed

lemma inv_exec:
  "engine_invariant g \<Longrightarrow> engine_invariant (snd (exec c g))"
  "engine_invariant g \<Longrightarrow> engine_invariant (snd (exec_all cs g))"
proof (induction c and cs arbitrary: g and g rule: exec_exec_all.induct)
  case (1 v) then show ?case by (simp add: inv_set_scale)
next
  case (2 rt) then show ?case by (simp add: inv_set_renderingType)
next
  case (3 q) then show ?case by (simp add: inv_set_smoothingQuality)
next
  case 4 then show ?case by (simp add: keyboard_def split: option.splits)
next
  case (5 callbackFn) then show ?case by (simp add: inv_preload)
next
  case (6 callbackFn) then show ?case by (simp add: inv_load)
next
  case 7 then show ?case by (simp add: inv_update)
next
  case 8 then show ?case by (simp add: inv_pause)
next
  case 9 then show ?case by (simp add: inv_resume)
next
  case 10 then show ?case by (simp add: inv_end_game)
next
  case (11 targetObject) then show ?case by (simp add: inv_removeObject)
next
  case (12 targetObject screenThreshold)
  have "engine_invariant (snd (outbound targetObject screenThreshold None g))"
    by (rule inv_outbound) (use 12 in simp_all)
  then show ?case by simp
next
  case (13 targetObject screenThreshold cs)
  have "engine_invariant (snd (outbound targetObject screenThreshold (Some (exec_all cs)) g))"
    by (rule inv_outbound) (use 13 in auto)
  then show ?case by simp
next
  case (14 targetObject quantity) then show ?case by (simp add: inv_instantiate)
next
  case (15 object1 object2) then show ?case by (simp add: inv_colliding)
next
  case (16 stackMatch) then show ?case by (simp add: inv_useLogs)
next
  case 17 then show ?case by (simp add: inv_useKeyboard)
next
  case 18 then show ?case by (simp add: updater_pause_def inv_pause)
next
  case 19 then show ?case by (simp add: updater_resume_def inv_resume)
next
  case (20 key cs)
  have "engine_invariant (snd (updater_runOnce key (exec_all cs) g))"
    by (rule inv_updater_runOnce) (use 20 in auto)
  then show ?case by simp
next
  case (21 spriteName) then show ?case by (simp add: inv_updater_lookups)
next
  case (22 audioName) then show ?case by (simp add: inv_updater_lookups)
next
  case (23 gameObjectName) then show ?case by (simp add: inv_updater_lookups)
next
  case (24 gameMapName) then show ?case by (simp add: inv_updater_lookups)
next
  case (25 gameObjectName) then show ?case by (simp add: inv_updater_lookups)
next
  case 26 then show ?case by (simp add: inv_updater_lookups)
next
  case 27 then show ?case by simp
next
  case (28 c cs)
  show ?case
  proof (cases "exec c g")
    case (Pair r g1)
    with 28(1) [of g] 28(3) have g1: "engine_invariant g1" by simp
    show ?thesis
    proof (cases r)
      case None
      with Pair have "(None, g1) = exec c g" by simp
      from 28(2) [OF this refl g1] Pair None show ?thesis by simp
    next
      case (Some err)
      with Pair g1 show ?thesis by simp
    qed
  qed
qed

lemma inv_tick:
  assumes "engine_invariant g" and "\<And>dt s. engine_invariant s \<Longrightarrow> engine_invariant (snd (cb dt s))"
  shows "engine_invariant (snd (updateLoopLogic_tick cb t g))"
proof (cases "cb ((t - deltaTimePreviousTime g) / 1000) g")
  case (Pair r g1)
  with assms have "engine_invariant g1"
    by (metis snd_conv)
  with Pair assms(1) show ?thesis
    by (simp add: updateLoopLogic_tick_def Let_def engine_invariant_def split: option.splits)
qed

lemma reachable_invariant: "reachable g \<Longrightarrow> engine_invariant g"
proof (induction rule: reachable.induct)
  case (reachable_new w h stackMatch g)
  then show ?case by (rule inv_constructor)
next
  case (reachable_call g c)
  then show ?case by (simp add: inv_exec)
next
  case (reachable_tick g program t)
  then show ?case by (intro inv_tick) (simp_all add: inv_exec)
qed

section \<open>The small game, step by step\<close>

lemma new_game_fields:
  "new_game =
     \<lparr>width = Finite 320, height = Finite 240, renderingType = ''smooth'', smoothRenderingValue = ''low'',
      scale = Finite 1, loadedSprites = Map.empty, loadedGameObjects = Map.empty,
      loadedAudios = Map.empty, loadedGameMaps = Map.empty, loadedGameCameras = Map.empty,
      logsEnabled = False, loggedErros = {}, loggedErrors = {}, loggedExceptions = {},
      currentState = GameState_unset, lifecyclePromise = Fulfilled, updaterRunOnceKeys = {},
      deltaTimePreviousTime = 0, updateIsRunning = False, updateLoopLogic = False,
      keyboardEnabled = False, keyboardState = Map.empty, keyboardInstance = None,
      console = []\<rparr>"
  by (simp add: new_game_def constructor_def initial_fields_def promise_catch_def)

lemma preloaded_fields:
  "preload (Inr [InstSprite hero_sprite]) new_game =
     new_game\<lparr>currentState := GameState_preload,
              loadedSprites := [''spr_hero'' \<mapsto> hero_sprite]\<rparr>"
  by (simp add: new_game_fields preload_def promise_then_def preload_body_def preload_await_def
      promise_all_def sprite_onload_def hero_sprite_def Let_def)

lemma running_game_fields:
  "running_game =
     new_game\<lparr>currentState := GameState_update,
              loadedSprites := [''spr_hero'' \<mapsto> hero_sprite],
              loadedGameObjects := [''hero'' \<mapsto> hero],
              updateIsRunning := True,
              updateLoopLogic := True\<rparr>"
  unfolding running_game_def preloaded_fields
  by (simp add: new_game_fields load_def load_body_def
      promise_then_def assetsManipulationObject_def set_gameObject_def update_def
      update_body_def hero_def GameObject_new_def Let_def)

lemma played_game_fields:
  "played_game = running_game\<lparr>scale := Finite 2, updaterRunOnceKeys := {''intro''}, deltaTimePreviousTime := 16\<rparr>"
  unfolding played_game_def running_game_fields
  by (simp add: new_game_fields updateLoopLogic_tick_def
      updater_runOnce_def set_scale_def Let_def)

lemma taken_game_fields:
  "taken_game =
     new_game\<lparr>currentState := GameState_load,
              loadedGameObjects := [''hero-1'' \<mapsto> GameObject_new ''hero-1'' hero_sprite 7]\<rparr>"
  by (simp add: taken_game_def new_game_fields load_def load_body_def promise_then_def
      set_gameObject_def GameObject_new_def Let_def)

lemma new_game_constructed:
  "constructor (Finite 320) (Finite 240) True usual_stack = Inr new_game"
  by (simp add: new_game_def constructor_def Let_def)


section \<open>Lifecycle failures\<close>

lemma rejected_link_skips_stages:
  assumes "lifecyclePromise g = Rejected err"
  shows "preload producer g = g" and "load accessor_producer g = g" and "update g = g"
  using assms by (simp_all add: preload_def load_def update_def promise_then_def)

lemma reachable_never_errored: "reachable g \<Longrightarrow> currentState g \<noteq> GameState_error"
  using reachable_invariant [of g] by (simp add: engine_invariant_def)

text \<open>
  Claim C1. When a link of the lifecycle chain rejects, the lifecycle state should
  become \<open>GameState.error\<close>, caught by the handler installed at construction, and no
  later stage body should run.

  The engine does not do the first part. The constructor attaches its handler to the
  promise \<open>Promise.resolve()\<close>, which is fulfilled, and every stage replaces
  \<open>#lifecyclePromise\<close> by a promise derived with \<open>then\<close>, to which no handler is attached.
  On a fresh engine a preload producer that returns no asset, a sprite whose error
  signal fires and a producer that throws each reject the link, and each time the
  state stays \<open>GameState.preload\<close>. The second part holds: the stages registered after
  the rejection leave the engine as it is (\<open>rejected_link_skips_stages\<close>). No reachable
  engine is ever in the state \<open>GameState.error\<close> (\<open>reachable_never_errored\<close>).
\<close>

theorem rejected_chain_not_errored:
  "lifecyclePromise (preload (Inr []) new_game) = Rejected EmptyAssetListError \<and>
   currentState (preload (Inr []) new_game) = GameState_preload \<and>
   lifecyclePromise (preload (Inr [InstSprite broken_sprite]) new_game) =
     Rejected (AssetLoadError ''spr_broken'') \<and>
   currentState (preload (Inr [InstSprite broken_sprite]) new_game) = GameState_preload \<and>
   lifecyclePromise (preload (Inl (ProducerError ''thrown'')) new_game) =
     Rejected (ProducerError ''thrown'') \<and>
   currentState (preload (Inl (ProducerError ''thrown'')) new_game) = GameState_preload \<and>
   currentState (update (load (\<lambda>assets. Inr [InstObject hero]) (preload (Inr []) new_game))) =
     GameState_preload"
proof -
  have rejected: "lifecyclePromise (preload (Inr []) new_game) = Rejected EmptyAssetListError"
    by (simp add: new_game_fields preload_def promise_then_def preload_body_def Let_def)
  have skipped: "update (load (\<lambda>assets. Inr [InstObject hero]) (preload (Inr []) new_game)) =
      preload (Inr []) new_game"
    by (simp add: rejected_link_skips_stages [OF rejected])
  show ?thesis
    unfolding skipped
    by (simp add: new_game_fields preload_def promise_then_def preload_body_def preload_await_def
        promise_all_def sprite_onload_def broken_sprite_def hero_sprite_def Let_def)
qed

section \<open>Collision test\<close>

lemma numbers_iff:
  "numbers c = Some (x, y, w, h) \<longleftrightarrow>
     col_x c = JSNumber x \<and> col_y c = JSNumber y \<and> col_w c = JSNumber w \<and> col_h c = JSNumber h"
  by (auto simp: numbers_def split: jsval.splits)

text \<open>
  What the method decides: all eight fields are numbers, and the boxes that start at
  the positions and are as large as the collision sizes overlap, edges included. The
  offsets \<open>collision.x\<close> and \<open>collision.y\<close> are tested for being numbers and then not used.
\<close>

lemma colliding_code:
  "fst (colliding a b g) \<longleftrightarrow>
     (\<exists>x1 y1 w1 h1 x2 y2 w2 h2.
        numbers (collision a) = Some (x1, y1, w1, h1) \<and>
        numbers (collision b) = Some (x2, y2, w2, h2) \<and>
        vx (pos a) \<le> vx (pos b) + w2 \<and> vx (pos b) \<le> vx (pos a) + w1 \<and>
        vy (pos a) \<le> vy (pos b) + h2 \<and> vy (pos b) \<le> vy (pos a) + h1)"
  by (auto simp: colliding_def split: option.splits prod.splits)

lemma colliding_incomplete:
  "numbers (collision a) = None \<or> numbers (collision b) = None \<Longrightarrow> \<not> fst (colliding a b g)"
  by (auto simp: colliding_def split: option.splits prod.splits)

text \<open>
  Claim C2. \<open>colliding(a, b)\<close> should be true exactly when all eight collision fields
  are numbers and the two boxes, each formed as position plus collision offset and
  size, overlap with inclusive comparison.

  The engine ignores the offsets. For an entity at the origin whose 10 by 10 rectangle
  is offset by 100, and an entity at (5, 0) with a 10 by 10 rectangle and no offset,
  the boxes of the claim span 100 to 110 and 5 to 15 and do not overlap, yet the
  method answers true.
\<close>

theorem colliding_ignores_offset:
  "fst (colliding offset_box plain_box new_game) \<and> \<not> colliding_spec offset_box plain_box"
  by (simp add: colliding_def colliding_spec_def numbers_def offset_box_def plain_box_def
      GameObject_new_def hero_sprite_def)

text \<open>
  Claim C7. For every pair of entities, \<open>colliding(a, b)\<close> equals \<open>colliding(b, a)\<close>.
\<close>

theorem colliding_symmetric: "fst (colliding a b g) = fst (colliding b a g)"
  by (auto simp: colliding_def split: option.splits prod.splits)

section \<open>Instancing\<close>

lemma instantiate_step_fst:
  "fst (instantiate_step t i acc) = fst acc @ [new_instance t i]"
  by (simp add: instantiate_step_def Let_def)

lemma instantiate_step_keeps:
  "loadedGameObjects (snd acc) k = Some v \<Longrightarrow>
   loadedGameObjects (snd (instantiate_step t i acc)) k = Some v"
  by (auto simp: instantiate_step_def Let_def)

lemma instantiate_fold_fst:
  "fst (fold (instantiate_step t) is acc) = fst acc @ map (new_instance t) is"
  by (induction "is" arbitrary: acc) (simp_all add: instantiate_step_fst)

lemma instantiate_fold_keeps:
  "loadedGameObjects (snd acc) k = Some v \<Longrightarrow>
   loadedGameObjects (snd (fold (instantiate_step t) is acc)) k = Some v"
  by (induction "is" arbitrary: acc) (simp_all add: instantiate_step_keeps)

text \<open>
  The method returns every entity it creates, and it never replaces an entry of the
  registry: a name that is taken keeps its entity.
\<close>

lemma instantiate_returns_all:
  "fst (instantiate t n g) = map (new_instance t) [0..<n]"
  by (simp add: instantiate_def instantiate_fold_fst)

lemma instantiate_keeps_taken:
  "loadedGameObjects g k = Some v \<Longrightarrow> loadedGameObjects (snd (instantiate t n g)) k = Some v"
  by (simp add: instantiate_def instantiate_fold_keeps)

lemma new_instance_fields:
  "name (new_instance t i) = name t @ ''-'' @ string_of_nat (i + 1)"
  "sprite (new_instance t i) = GameSprite_clone (sprite t)"
  "layer (new_instance t i) = layer t"
  by (simp_all add: new_instance_def GameObject_new_def Let_def)

text \<open>
  The names are the template's name with the suffixes \<open>-1\<close> to \<open>-n\<close>, and after the
  call every one of them is in the registry.
\<close>

lemma instantiate_names:
  "map name (fst (instantiate t n g)) = map (\<lambda>i. name t @ ''-'' @ string_of_nat (i + 1)) [0..<n]"
  by (simp add: instantiate_returns_all new_instance_fields)

lemma instantiate_length: "length (fst (instantiate t n g)) = n"
  by (simp add: instantiate_returns_all)

lemma instantiate_step_registers:
  "loadedGameObjects (snd (instantiate_step t i acc)) (name (new_instance t i)) \<noteq> None"
  by (simp add: instantiate_step_def Let_def)

lemma instantiate_fold_registers:
  "i \<in> set is \<Longrightarrow>
   loadedGameObjects (snd (fold (instantiate_step t) is acc)) (name (new_instance t i)) \<noteq> None"
proof (induction "is" arbitrary: acc)
  case Nil
  then show ?case by simp
next
  case (Cons j js)
  show ?case
  proof (cases "i = j")
    case True
    obtain v where "loadedGameObjects (snd (instantiate_step t i acc)) (name (new_instance t i)) = Some v"
      using instantiate_step_registers [of t i acc] by auto
    then have "loadedGameObjects (snd (fold (instantiate_step t) js (instantiate_step t i acc)))
        (name (new_instance t i)) = Some v"
      by (rule instantiate_fold_keeps)
    with True show ?thesis by simp
  next
    case False
    with Cons.prems have "i \<in> set js" by simp
    then show ?thesis by (simp add: Cons.IH)
  qed
qed

lemma instantiate_registers:
  "i < n \<Longrightarrow> loadedGameObjects (snd (instantiate t n g)) (name (new_instance t i)) \<noteq> None"
  by (simp add: instantiate_def instantiate_fold_registers)

lemma string_of_nat_1: "string_of_nat (Suc 0) = ''1''"
  by (subst string_of_nat.simps) simp

text \<open>
  Claim C3. \<open>instantiate(template, n)\<close> should create the entities \<open>template-1\<close> to
  \<open>template-n\<close> with a clone of the template's sprite, register each unless its name is
  taken, and return exactly the created entities that were registered.

  The engine returns the skipped entities too. The test before \<open>instances.push\<close> asks
  whether the name is in the registry, which holds after the step before it whether
  the new entity was stored or an older one has the name. When \<open>hero-1\<close> is taken by an
  entity on layer 7, instancing \<open>hero\<close> once returns a new \<open>hero-1\<close> on layer 0 while the
  registry still holds the entity on layer 7.
\<close>

theorem instantiate_returns_unregistered:
  "fst (instantiate hero 1 taken_game) = [(GameObject_new ''hero-1'' hero_sprite 0)\<lparr>instanceId := 1\<rparr>] \<and>
   loadedGameObjects (snd (instantiate hero 1 taken_game)) ''hero-1'' =
     Some (GameObject_new ''hero-1'' hero_sprite 7) \<and>
   loadedGameObjects (snd (instantiate hero 1 taken_game)) ''hero-1'' \<noteq>
     Some (hd (fst (instantiate hero 1 taken_game)))"
  by (simp add: instantiate_def instantiate_step_def new_instance_def taken_game_fields
      string_of_nat_1 hero_def GameObject_new_def GameSprite_clone_def Let_def)

section \<open>Elapsed time\<close>

text \<open>
  No call of the public interface or of the updater object writes the previous time:
  its only assignment is the one at the end of a tick.
\<close>

lemma fold_previous_time:
  assumes "\<And>x s. deltaTimePreviousTime (step x s) = deltaTimePreviousTime s"
  shows "deltaTimePreviousTime (fold step xs g) = deltaTimePreviousTime g"
  by (induction xs arbitrary: g) (simp_all add: assms)

lemma previous_time_link:
  assumes "\<And>s. deltaTimePreviousTime (snd (body s)) = deltaTimePreviousTime s"
  shows "deltaTimePreviousTime ((snd (promise_then (lifecyclePromise g) body g))\<lparr>lifecyclePromise := p\<rparr>) =
         deltaTimePreviousTime g"
  by (simp add: promise_then_def assms split: promise.splits)

lemma previous_time_preload_body:
  "deltaTimePreviousTime (snd (preload_body cb g)) = deltaTimePreviousTime g"
proof -
  have a: "deltaTimePreviousTime (fold sprite_onload ss s) = deltaTimePreviousTime s" for ss s
    by (rule fold_previous_time) (simp add: sprite_onload_def Let_def)
  have b: "deltaTimePreviousTime (fold audio_onCanPlayThrough as s) = deltaTimePreviousTime s" for as s
    by (rule fold_previous_time) (simp add: audio_onCanPlayThrough_def Let_def)
  show ?thesis
    by (simp add: preload_body_def Let_def a b split: sum.splits)
qed

lemma previous_time_load_body:
  "deltaTimePreviousTime (snd (load_body cb g)) = deltaTimePreviousTime g"
proof -
  have a: "deltaTimePreviousTime (fold set_gameObject xs s) = deltaTimePreviousTime s" for xs s
    by (rule fold_previous_time) (simp add: set_gameObject_def)
  have b: "deltaTimePreviousTime (fold set_gameMap xs s) = deltaTimePreviousTime s" for xs s
    by (rule fold_previous_time) (simp add: set_gameMap_def)
  have c: "deltaTimePreviousTime (fold set_gameCamera xs s) = deltaTimePreviousTime s" for xs s
    by (rule fold_previous_time) (simp add: set_gameCamera_def)
  show ?thesis
    by (simp add: load_body_def Let_def a b c split: sum.splits)
qed

lemma previous_time_stages:
  "deltaTimePreviousTime (preload cb g) = deltaTimePreviousTime g"
  "deltaTimePreviousTime (load cb' g) = deltaTimePreviousTime g"
  "deltaTimePreviousTime (update g) = deltaTimePreviousTime g"
  unfolding preload_def load_def update_def Let_def
  by (rule previous_time_link, simp add: previous_time_preload_body previous_time_load_body
      update_body_def Let_def)+

lemma previous_time_pause: "deltaTimePreviousTime (pause g) = deltaTimePreviousTime g"
  by (simp add: pause_def Let_def)

lemma previous_time_resume: "deltaTimePreviousTime (resume g) = deltaTimePreviousTime g"
  by (simp add: resume_def Let_def)

lemma previous_time_end_game: "deltaTimePreviousTime (end_game g) = deltaTimePreviousTime g"
  by (simp add: end_game_def Let_def previous_time_pause)

lemma previous_time_removeObject:
  "deltaTimePreviousTime (removeObject x g) = deltaTimePreviousTime g"
  by (simp add: removeObject_def removal_notice_def split: js_instance.splits)

lemma previous_time_outbound:
  assumes "\<And>cb s. callbackFn = Some cb \<Longrightarrow> deltaTimePreviousTime (snd (cb s)) = deltaTimePreviousTime s"
  shows "deltaTimePreviousTime (snd (outbound ob thr callbackFn g)) = deltaTimePreviousTime g"
  using assms by (simp add: outbound_def Let_def previous_time_pause split: option.splits)

lemma previous_time_instantiate:
  "deltaTimePreviousTime (snd (instantiate ob n g)) = deltaTimePreviousTime g"
proof -
  have "deltaTimePreviousTime (snd (fold (instantiate_step ob) is acc)) = deltaTimePreviousTime (snd acc)"
    for "is" acc
    by (induction "is" arbitrary: acc) (simp_all add: instantiate_step_def Let_def)
  then show ?thesis
    by (simp add: instantiate_def)
qed

lemma previous_time_colliding:
  "deltaTimePreviousTime (snd (colliding a b g)) = deltaTimePreviousTime g"
  by (simp add: colliding_def split: option.splits prod.splits)

lemma previous_time_useLogs:
  "deltaTimePreviousTime (snd (useLogs stackMatch g)) = deltaTimePreviousTime g"
  by (simp add: useLogs_def split: sum.splits)

lemma previous_time_runOnce:
  assumes "\<And>s. deltaTimePreviousTime (snd (cb s)) = deltaTimePreviousTime s"
  shows "deltaTimePreviousTime (snd (updater_runOnce k cb g)) = deltaTimePreviousTime g"
proof (cases "cb g")
  case (Pair r g1)
  with assms [of g] have "deltaTimePreviousTime g1 = deltaTimePreviousTime g" by simp
  with Pair show ?thesis
    by (simp add: updater_runOnce_def Let_def split: option.splits)
qed

lemma previous_time_lookups:
  "deltaTimePreviousTime (snd (updater_getSprite n g)) = deltaTimePreviousTime g"
  "deltaTimePreviousTime (snd (updater_getAudio n g)) = deltaTimePreviousTime g"
  "deltaTimePreviousTime (snd (updater_getObject n g)) = deltaTimePreviousTime g"
  "deltaTimePreviousTime (snd (updater_getMap n g)) = deltaTimePreviousTime g"
  "deltaTimePreviousTime (updater_animateFromName n g) = deltaTimePreviousTime g"
  "deltaTimePreviousTime (updater_logObjects g) = deltaTimePreviousTime g"
  by (simp_all add: updater_getSprite_def updater_getAudio_def updater_getObject_def
      updater_getMap_def updater_animateFromName_def updater_logObjects_def log_miss_def Let_def
      split: option.splits)

lemma previous_time_exec:
  "deltaTimePreviousTime (snd (exec c g)) = deltaTimePreviousTime g"
  "deltaTimePreviousTime (snd (exec_all cs g)) = deltaTimePreviousTime g"
proof (induction c and cs arbitrary: g and g rule: exec_exec_all.induct)
  case (12 targetObject screenThreshold)
  have "deltaTimePreviousTime (snd (outbound targetObject screenThreshold None g)) = deltaTimePreviousTime g"
    by (rule previous_time_outbound) simp
  then show ?case by simp
next
  case (13 targetObject screenThreshold cs)
  have "deltaTimePreviousTime (snd (outbound targetObject screenThreshold (Some (exec_all cs)) g)) =
      deltaTimePreviousTime g"
    by (rule previous_time_outbound) (use 13 in auto)
  then show ?case by simp
next
  case (20 key cs)
  have "deltaTimePreviousTime (snd (updater_runOnce key (exec_all cs) g)) = deltaTimePreviousTime g"
    by (rule previous_time_runOnce) (use 20 in auto)
  then show ?case by simp
next
  case (28 c cs)
  show ?case
  proof (cases "exec c g")
    case (Pair r g1)
    with 28(1) [of g] have g1: "deltaTimePreviousTime g1 = deltaTimePreviousTime g" by simp
    show ?thesis
    proof (cases r)
      case None
      with Pair have "(None, g1) = exec c g" by simp
      from 28(2) [OF this refl, of g1] Pair None g1 show ?thesis by simp
    next
      case (Some err)
      with Pair g1 show ?thesis by simp
    qed
  qed
qed (simp_all add: set_scale_def set_renderingType_def set_smoothingQuality_def keyboard_def
      previous_time_stages previous_time_pause previous_time_resume previous_time_end_game
      previous_time_removeObject previous_time_instantiate previous_time_colliding
      previous_time_useLogs useKeyboard_def updater_pause_def updater_resume_def
      previous_time_lookups split: option.splits)

lemma previous_return_Cons:
  "previous_return start (c # cs) = previous_return (if returned c then timestamp c else start) cs"
  by (cases "filter returned (rev cs)") (simp_all add: previous_return_def)

lemma tick_program:
  assumes "updateLoopLogic_tick (\<lambda>dt s. exec_all (program dt s) s) t g = (r, g')"
  shows "(r = None \<and> deltaTimePreviousTime g' = deltaTimePreviousTime g) \<or>
         (\<exists>c. r = Some c \<and> timestamp c = t \<and>
              deltaTime c = (t - deltaTimePreviousTime g) / 1000 \<and>
              deltaTimePreviousTime g' = (if returned c then t else deltaTimePreviousTime g))"
proof (cases "currentState g = GameState_update")
  case False
  with assms show ?thesis by (simp add: updateLoopLogic_tick_def)
next
  case True
  let ?dt = "(t - deltaTimePreviousTime g) / 1000"
  obtain e g1 where run: "exec_all (program ?dt g) g = (e, g1)"
    by (cases "exec_all (program ?dt g) g")
  have "deltaTimePreviousTime g1 = deltaTimePreviousTime g"
    using previous_time_exec(2) [of "program ?dt g" g] run by simp
  with assms True run show ?thesis
    by (cases e) (auto simp: updateLoopLogic_tick_def Let_def)
qed

lemma run_events_elapsed:
  "k < length (fst (run_events evs g)) \<Longrightarrow>
   deltaTime (fst (run_events evs g) ! k) =
     (timestamp (fst (run_events evs g) ! k) -
      previous_return (deltaTimePreviousTime g) (take k (fst (run_events evs g)))) / 1000"
proof (induction evs g arbitrary: k rule: run_events.induct)
  case (1 g)
  then show ?case by simp
next
  case (2 c evs g)
  then show ?case by (simp add: previous_time_exec)
next
  case (3 program t evs g)
  show ?case
  proof (cases "updateLoopLogic g")
    case False
    with 3 show ?thesis by simp
  next
    case True
    obtain r g' where tick: "updateLoopLogic_tick (\<lambda>dt s. exec_all (program dt s) s) t g = (r, g')"
      by (cases "updateLoopLogic_tick (\<lambda>dt s. exec_all (program dt s) s) t g")
    have IH: "j < length (fst (run_events evs g')) \<Longrightarrow>
        deltaTime (fst (run_events evs g') ! j) =
          (timestamp (fst (run_events evs g') ! j) -
           previous_return (deltaTimePreviousTime g') (take j (fst (run_events evs g')))) / 1000" for j
      using "3.IH"(1) [OF True refl, of j] tick by simp
    from tick_program [OF tick] show ?thesis
    proof
      assume "r = None \<and> deltaTimePreviousTime g' = deltaTimePreviousTime g"
      with True tick IH [of k] "3.prems" show ?thesis by (simp add: Let_def)
    next
      assume "\<exists>c. r = Some c \<and> timestamp c = t \<and>
              deltaTime c = (t - deltaTimePreviousTime g) / 1000 \<and>
              deltaTimePreviousTime g' = (if returned c then t else deltaTimePreviousTime g)"
      then obtain c where c: "r = Some c" "timestamp c = t"
          "deltaTime c = (t - deltaTimePreviousTime g) / 1000"
          "deltaTimePreviousTime g' = (if returned c then t else deltaTimePreviousTime g)"
        by blast
      have trace: "fst (run_events (Frame program t # evs) g) = c # fst (run_events evs g')"
        using True tick c(1) by (simp add: Let_def)
      show ?thesis
      proof (cases k)
        case 0
        with trace c show ?thesis by (simp add: previous_return_def)
      next
        case (Suc j)
        with "3.prems" trace have "j < length (fst (run_events evs g'))" by simp
        from IH [OF this] Suc trace c show ?thesis
          by (simp add: previous_return_Cons)
      qed
    qed
  qed
qed

lemma constructor_previous_time:
  "constructor w h el stackMatch = Inr g \<Longrightarrow> deltaTimePreviousTime g = 0"
  using constructor_Inr [of w h el stackMatch g] by (auto simp: initial_fields_def)

text \<open>
  In every run of an engine from its construction, each call of the per-frame callback
  is passed the difference between its timestamp and that of the latest earlier call
  that returned, or 0 when there is none, divided by 1000.
\<close>

lemma first_call_elapsed:
  assumes "constructor w h el stackMatch = Inr g0"
    and "fst (run_events evs g0) = c # cs"
  shows "deltaTime c = timestamp c / 1000"
proof -
  have "0 < length (fst (run_events evs g0))"
    using assms(2) by simp
  from run_events_elapsed [OF this] assms constructor_previous_time [OF assms(1)] show ?thesis
    by (simp add: previous_return_def)
qed






section \<open>Ending the game\<close>

lemma end_game_clears:
  "\<not> logsEnabled (end_game g)"
  "\<not> updateIsRunning (end_game g)"
  "loadedSprites (end_game g) = Map.empty"
  "loadedAudios (end_game g) = Map.empty"
  "loadedGameObjects (end_game g) = Map.empty"
  "loadedGameMaps (end_game g) = Map.empty"
  "loadedGameCameras (end_game g) = Map.empty"
  "keyboardState (end_game g) = Map.empty"
  "loggedErros (end_game g) = {}"
  by (simp_all add: end_game_def pause_def Let_def)

lemma end_game_detaches:
  "keyboardInstance (end_game g) = Some k \<Longrightarrow> \<not> listenerAttached k"
  by (auto simp: end_game_def pause_def Let_def removeListener_def split: if_splits)

lemma end_game_runOnce_keys: "updaterRunOnceKeys (end_game g) = updaterRunOnceKeys g"
  by (simp add: end_game_def pause_def Let_def)

text \<open>
  Claim C5. After \<open>end()\<close> logging should be off, the loop paused, the input listeners
  detached, and every registry and every dedupe set empty, the set of run-once keys
  included.

  The engine clears the registries and the miss-logging set (\<open>end_game_clears\<close>,
  \<open>end_game_detaches\<close>) but has no \<open>clear()\<close> for \<open>#updaterRunOnceKeys\<close>: the set is the
  same after \<open>end()\<close> as before (\<open>end_game_runOnce_keys\<close>). After one frame of the small
  game that ran a block under the key intro, ending the game leaves the key in the set.
\<close>

theorem end_keeps_runOnce_keys:
  "updaterRunOnceKeys played_game = {''intro''} \<and>
   updaterRunOnceKeys (end_game played_game) = {''intro''} \<and>
   loggedErros (end_game played_game) = {}"
  by (simp add: played_game_fields end_game_def pause_def Let_def)

section \<open>Preloading nothing\<close>

text \<open>
  Claim C6. A preload producer that returns an empty list makes the preload stage
  fail with \<open>EmptyAssetListError\<close>, and the failed stage inserts nothing into any
  registry. The stage runs when the link before it is fulfilled; the registries are
  unchanged whatever the link before it is.
\<close>

theorem preload_empty_fails:
  "(lifecyclePromise g = Fulfilled \<longrightarrow>
      lifecyclePromise (preload (Inr []) g) = Rejected EmptyAssetListError) \<and>
   loadedSprites (preload (Inr []) g) = loadedSprites g \<and>
   loadedAudios (preload (Inr []) g) = loadedAudios g \<and>
   loadedGameObjects (preload (Inr []) g) = loadedGameObjects g \<and>
   loadedGameMaps (preload (Inr []) g) = loadedGameMaps g \<and>
   loadedGameCameras (preload (Inr []) g) = loadedGameCameras g"
  by (simp add: preload_def promise_then_def preload_body_def Let_def split: promise.splits)

theorem preload_empty_fails_witness:
  "lifecyclePromise running_game = Fulfilled \<and>
   lifecyclePromise (preload (Inr []) running_game) = Rejected EmptyAssetListError \<and>
   loadedSprites (preload (Inr []) running_game) = [''spr_hero'' \<mapsto> hero_sprite] \<and>
   loadedAudios (preload (Inr []) running_game) = Map.empty"
proof -
  have h: "lifecyclePromise running_game = Fulfilled"
    by (simp add: running_game_fields new_game_fields)
  have s: "loadedSprites running_game = [''spr_hero'' \<mapsto> hero_sprite]"
    by (simp add: running_game_fields)
  have a: "loadedAudios running_game = Map.empty"
    by (simp add: running_game_fields new_game_fields)
  from h s a preload_empty_fails [of running_game] show ?thesis by simp
qed

section \<open>Removing an entity\<close>

text \<open>
  Claim C8. After \<open>removeObject(e)\<close> the entity registry does not contain the name of
  \<open>e\<close>; removing \<open>e\<close> again changes nothing, and so does removing an entity whose name
  is not in the registry. The method has no \<open>throw\<close> and calls nothing that throws.
\<close>

theorem removeObject_roundtrip:
  "loadedGameObjects (removeObject (InstObject e) g) (name e) = None \<and>
   removeObject (InstObject e) (removeObject (InstObject e) g) = removeObject (InstObject e) g \<and>
   (loadedGameObjects g (name e) = None \<longrightarrow> removeObject (InstObject e) g = g)"
  by (simp add: removeObject_def removal_notice_def)

theorem removeObject_roundtrip_witness:
  "loadedGameObjects running_game (name hero) = Some hero \<and>
   loadedGameObjects (removeObject (InstObject hero) running_game) (name hero) = None \<and>
   removeObject (InstObject hero) (removeObject (InstObject hero) running_game) =
     removeObject (InstObject hero) running_game \<and>
   removeObject (InstObject hero) (removeObject (InstObject hero) running_game) =
     running_game\<lparr>loadedGameObjects := Map.empty\<rparr>"
proof -
  have a: "loadedGameObjects running_game (name hero) = Some hero"
    by (simp add: running_game_fields hero_def GameObject_new_def)
  have b: "removeObject (InstObject hero) running_game = running_game\<lparr>loadedGameObjects := Map.empty\<rparr>"
    by (simp add: removeObject_def removal_notice_def running_game_fields new_game_fields hero_def GameObject_new_def)
  from a b removeObject_roundtrip [of hero running_game] show ?thesis by simp
qed

section \<open>Dimensions and scale\<close>

lemma never_negative_iff: "never_negative v \<longleftrightarrow> \<not> number_less v (Finite 0)"
  by (cases v) (auto simp: never_negative_def number_le_def)

lemma callerInfo_usual:
  "GameLogger_callerInfo usual_stack =
     Inr (Some (newline @ newline @ ''main.js:3:14'' @ newline @ ''Game.js:82:13''))"
  by (simp add: GameLogger_callerInfo_def usual_stack_def)

text \<open>
  Claim C9, as stated: in every reachable engine the width, the height and the global
  scale are non-negative, and the constructor logs a warning and does not fail on
  negative input. \<open>Math.abs\<close> of \<open>NaN\<close> is \<open>NaN\<close>, and nothing guards against it: after
  \<open>game.scale = NaN\<close> the scale is \<open>NaN\<close>, for which \<open>0 <= scale\<close> is false, and likewise
  for a width of \<open>NaN\<close> given to the constructor. The warning goes through the logger,
  whose caller information cannot be computed when the stack holds no place other
  than the logger's own: the constructor then fails with a \<open>TypeError\<close> on a negative
  width.
\<close>

theorem dimensions_nonnegative_counterexample:
  "reachable (snd (exec (SetScale NaN) new_game)) \<and>
   scale (snd (exec (SetScale NaN) new_game)) = NaN \<and>
   \<not> number_le (Finite 0) (scale (snd (exec (SetScale NaN) new_game))) \<and>
   width (projr (constructor NaN (Finite 240) True usual_stack)) = NaN \<and>
   number_less (Finite (- 320)) (Finite 0) \<and>
   constructor (Finite (- 320)) (Finite 240) True (Some [''GameLogger.js:10:17'', ''GameLogger.js:27:40'']) =
     Inl TypeError"
proof -
  have r: "reachable (snd (exec (SetScale NaN) new_game))"
    by (rule reachable_call, rule reachable_new, rule new_game_constructed)
  have s: "scale (snd (exec (SetScale NaN) new_game)) = NaN"
    by (simp add: set_scale_def)
  have w: "width (projr (constructor NaN (Finite 240) True usual_stack)) = NaN"
    by (simp add: constructor_def initial_fields_def promise_catch_def Let_def)
  have c: "constructor (Finite (- 320)) (Finite 240) True (Some [''GameLogger.js:10:17'', ''GameLogger.js:27:40'']) =
     Inl TypeError"
    by (simp add: constructor_def GameLogger_out_def GameLogger_callerInfo_def)
  from r s w c show ?thesis
    by (simp add: number_le_def)
qed

text \<open>
  Claim C9, amended. In every reachable engine the width, the height and the global
  scale are never negative: each is \<open>NaN\<close> or a number that is at least 0. The
  constructor stores the absolute values of the width and the height it is given; when
  one of them is negative and the logger can compute its caller information, the
  constructor does not fail and logs one warning, the message followed by a blank and
  the caller information; when none is negative it logs nothing. The setter of the
  scale stores the absolute value of its argument. So no operation makes any of the
  three values negative.
\<close>

theorem dimensions_never_negative:
  "(reachable g \<longrightarrow>
      never_negative (width g) \<and> never_negative (height g) \<and> never_negative (scale g)) \<and>
   ((number_less w (Finite 0) \<or> number_less h (Finite 0)) \<and>
    GameLogger_callerInfo stackMatch = Inr info \<longrightarrow>
      (\<exists>g0. constructor w h True stackMatch = Inr g0 \<and>
            width g0 = Math_abs w \<and> height g0 = Math_abs h \<and>
            console g0 =
              [Console_warn (negative_message @ '' '' @
                 (case info of None \<Rightarrow> ''undefined'' | Some text \<Rightarrow> text))])) \<and>
   (\<not> (number_less w (Finite 0) \<or> number_less h (Finite 0)) \<longrightarrow>
      (\<exists>g0. constructor w h True stackMatch = Inr g0 \<and>
            width g0 = Math_abs w \<and> height g0 = Math_abs h \<and> console g0 = [])) \<and>
   scale (set_scale v g) = Math_abs v"
proof (intro conjI impI)
  assume "reachable g"
  then have "engine_invariant g" by (rule reachable_invariant)
  then show "never_negative (width g)" "never_negative (height g)" "never_negative (scale g)"
    by (simp_all add: engine_invariant_def)
next
  assume "(number_less w (Finite 0) \<or> number_less h (Finite 0)) \<and>
    GameLogger_callerInfo stackMatch = Inr info"
  then show "\<exists>g0. constructor w h True stackMatch = Inr g0 \<and>
            width g0 = Math_abs w \<and> height g0 = Math_abs h \<and>
            console g0 =
              [Console_warn (negative_message @ '' '' @
                 (case info of None \<Rightarrow> ''undefined'' | Some text \<Rightarrow> text))]"
    by (auto simp: constructor_def GameLogger_out_def initial_fields_def promise_catch_def Let_def)
next
  assume "\<not> (number_less w (Finite 0) \<or> number_less h (Finite 0))"
  then show "\<exists>g0. constructor w h True stackMatch = Inr g0 \<and>
            width g0 = Math_abs w \<and> height g0 = Math_abs h \<and> console g0 = []"
    by (simp add: constructor_def initial_fields_def promise_catch_def Let_def)
next
  show "scale (set_scale v g) = Math_abs v"
    by (simp add: set_scale_def)
qed

theorem dimensions_never_negative_witness:
  "reachable (snd (exec (SetScale (Finite (- 2)))
      (projr (constructor (Finite (- 320)) (Finite 240) True usual_stack)))) \<and>
   width (snd (exec (SetScale (Finite (- 2)))
      (projr (constructor (Finite (- 320)) (Finite 240) True usual_stack)))) = Finite 320 \<and>
   height (snd (exec (SetScale (Finite (- 2)))
      (projr (constructor (Finite (- 320)) (Finite 240) True usual_stack)))) = Finite 240 \<and>
   scale (snd (exec (SetScale (Finite (- 2)))
      (projr (constructor (Finite (- 320)) (Finite 240) True usual_stack)))) = Finite 2 \<and>
   never_negative (scale (snd (exec (SetScale (Finite (- 2)))
      (projr (constructor (Finite (- 320)) (Finite 240) True usual_stack))))) \<and>
   number_less (Finite (- 320)) (Finite 0) \<and>
   console (projr (constructor (Finite (- 320)) (Finite 240) True usual_stack)) =
     [Console_warn (negative_message @ '' '' @ newline @ newline @
        ''main.js:3:14'' @ newline @ ''Game.js:82:13'')]"
proof -
  let ?start = "projr (constructor (Finite (- 320)) (Finite 240) True usual_stack)"
  let ?scaled = "snd (exec (SetScale (Finite (- 2))) ?start)"
  let ?info = "Some (newline @ newline @ ''main.js:3:14'' @ newline @ ''Game.js:82:13'')"
  have n: "number_less (Finite (- 320)) (Finite 0)"
    by simp
  from n callerInfo_usual
    dimensions_never_negative [of ?scaled "Finite (- 320)" "Finite 240" usual_stack ?info "Finite (- 2)"]
  obtain g0 where g0: "constructor (Finite (- 320)) (Finite 240) True usual_stack = Inr g0"
      "width g0 = Finite 320" "height g0 = Finite 240"
      "console g0 = [Console_warn (negative_message @ '' '' @ newline @ newline @
        ''main.js:3:14'' @ newline @ ''Game.js:82:13'')]"
    by auto
  then have start: "?start = g0"
    by simp
  have r: "reachable ?scaled"
    unfolding start by (rule reachable_call, rule reachable_new, rule g0(1))
  have f: "width ?scaled = Finite 320" "height ?scaled = Finite 240" "scale ?scaled = Finite 2"
    unfolding start by (simp_all add: set_scale_def g0)
  from r f n g0 start
    dimensions_never_negative [of ?scaled "Finite (- 320)" "Finite 240" usual_stack ?info "Finite (- 2)"]
  show ?thesis by simp
qed

section \<open>Smoothing quality\<close>

text \<open>
  Claim C10. When the rendering type is not smooth, assigning to \<open>smoothingQuality\<close>
  throws and leaves the engine as it was: the stored smoothing quality and the
  rendering type keep their values.
\<close>

theorem smoothingQuality_needs_smooth:
  "renderingType g \<noteq> ''smooth'' \<Longrightarrow> set_smoothingQuality q g = (Some InvalidModeError, g)"
  by (simp add: set_smoothingQuality_def)

theorem smoothingQuality_needs_smooth_witness:
  "renderingType (set_renderingType ''pixelated'' new_game) \<noteq> ''smooth'' \<and>
   smoothRenderingValue (set_renderingType ''pixelated'' new_game) = ''low'' \<and>
   set_smoothingQuality ''high'' (set_renderingType ''pixelated'' new_game) =
     (Some InvalidModeError, set_renderingType ''pixelated'' new_game)"
proof -
  have h: "renderingType (set_renderingType ''pixelated'' new_game) \<noteq> ''smooth''"
    by (simp add: set_renderingType_def)
  have "smoothRenderingValue (set_renderingType ''pixelated'' new_game) = ''low''"
    by (simp add: set_renderingType_def new_game_fields)
  with h smoothingQuality_needs_smooth [OF h, of "''high''"] show ?thesis by simp
qed

end
